theory Spec2Isabelle
  imports Main "HOL-Library.Word"
begin

section \<open>The webhook handler of \<open>webhook_server.py\<close>\<close>

text \<open>
  The development embeds \<open>WebhookHandler.do_POST\<close> and \<open>WebhookHandler.log_message\<close>.
  Everything the handler does to the outside (lines written to standard output, the
  one-second sleep, the status line, headers and body sent to the client) is recorded, in
  order, in a trace of events; an exception is a value. Calls into the Python library
  whose result depends on text that the handler only passes through (the integer parser,
  the UTF-8 decoder, the JSON parser, the request stream, the clock) are parameters.
  Standard output is a UTF-8 text stream with the error handler \<open>strict\<close>, as Python
  opens it in a UTF-8 locale: \<open>print\<close> raises \<open>UnicodeEncodeError\<close> on a line that
  holds a lone surrogate, and writes every other line.
\<close>

subsection \<open>Python values\<close>

text \<open>
  What \<open>json.loads\<close> can return. A Python \<open>float\<close> is a C double, kept as its 64 bits;
  an \<open>int\<close> is unbounded. A \<open>dict\<close> is given by an association list read with
  \<open>map_of\<close>. A \<open>str\<close> is kept as the bytes of its UTF-8 encoding; a lone surrogate
  (U+D800 to U+DFFF), which \<open>json.loads\<close> returns for an escape such as \<open>\ud800\<close> and
  which UTF-8 proper does not encode, is kept as the three bytes of the same scheme:
  \<open>0xED\<close>, then a byte from \<open>0xA0\<close> to \<open>0xBF\<close>, then a continuation byte.
\<close>

datatype json =
    JNull
  | JBool bool
  | JInt int
  | JFloat "64 word"
  | JString string
  | JArray "json list"
  | JObject "(string \<times> json) list"

text \<open>The truth value that \<open>if fleet_metrics:\<close> tests: \<open>None\<close>, \<open>False\<close>, a zero number
  (for a double: all bits below the sign bit are zero) and an empty string, list or dict
  are false.\<close>

fun truthy :: "json \<Rightarrow> bool" where
  "truthy JNull = False"
| "truthy (JBool b) = b"
| "truthy (JInt i) = (i \<noteq> 0)"
| "truthy (JFloat w) = (take_bit 63 w \<noteq> 0)"
| "truthy (JString s) = (s \<noteq> [])"
| "truthy (JArray xs) = (xs \<noteq> [])"
| "truthy (JObject kvs) = (kvs \<noteq> [])"

fun type_name :: "json \<Rightarrow> string" where
  "type_name JNull = ''NoneType''"
| "type_name (JBool b) = ''bool''"
| "type_name (JInt i) = ''int''"
| "type_name (JFloat w) = ''float''"
| "type_name (JString s) = ''str''"
| "type_name (JArray xs) = ''list''"
| "type_name (JObject kvs) = ''dict''"

text \<open>
  Whether a \<open>str\<close> holds a lone surrogate: only there does the lead byte \<open>0xED\<close> stand
  before a byte of \<open>0xA0\<close> or more.
\<close>

fun has_surrogate :: "string \<Rightarrow> bool" where
  "has_surrogate (a # b # s) =
     ((a = CHR 0xED \<and> (0xA0 :: nat) \<le> of_char b) \<or> has_surrogate (b # s))"
| "has_surrogate s = False"

text \<open>
  Whether the text of \<open>format(v, '')\<close>, that is \<open>str(v)\<close>, can be encoded as UTF-8. The
  text of a \<open>str\<close> is the \<open>str\<close> itself. The text of \<open>None\<close>, of a \<open>bool\<close> and of a
  number is ASCII, and so is the text of a list or a dict, which shows each \<open>str\<close> inside
  it by \<open>repr\<close>, with every surrogate escaped. (An \<open>int\<close> that \<open>json.loads\<close> made was
  read from its decimal digits, so that writing the digits again stays within the limit
  that Python sets on both conversions.)
\<close>

fun printable :: "json \<Rightarrow> bool" where
  "printable (JString s) = (\<not> has_surrogate s)"
| "printable v = True"

subsection \<open>Exceptions and printed lines\<close>

text \<open>
  A printed line is the f-string that produced it: its literal text and, for each
  replacement field, the value that fills it (\<open>Fmt_time s\<close> is the text \<open>s\<close> of
  \<open>strftime\<close>, \<open>Percent f args\<close> is the text of \<open>f % args\<close>).

  An exception is its class name and its message; the \<open>UnicodeEncodeError\<close> of
  \<open>print\<close> is given by the line that could not be encoded (its message names the
  surrogate and its position in the line). Every exception of the model is of a subclass
  of \<open>Exception\<close>, so \<open>except Exception\<close> catches each of them.
\<close>

datatype piece =
    Lit string
  | Fmt json
  | Fmt_exn exn
  | Fmt_time string
  | Percent string "string list"
and exn =
    Exn string string
  | UnicodeEncodeError "piece list"

definition AttributeError :: "string \<Rightarrow> exn" where
  "AttributeError msg = Exn ''AttributeError'' msg"

definition TypeError :: "string \<Rightarrow> exn" where
  "TypeError msg = Exn ''TypeError'' msg"

definition apostrophe :: string where
  "apostrophe = [CHR 0x27]"

text \<open>\<open>getattr\<close> fails on a value that has no attribute of that name.\<close>

definition no_attribute :: "json \<Rightarrow> string \<Rightarrow> exn" where
  "no_attribute v a =
     AttributeError (apostrophe @ type_name v @ apostrophe @ '' object has no attribute ''
                     @ apostrophe @ a @ apostrophe)"

text \<open>\<open>dict.get(k, d)\<close>: the value stored under \<open>k\<close>, or \<open>d\<close> when the dict has no
  key \<open>k\<close>.\<close>

definition dict_get :: "(string \<times> json) list \<Rightarrow> string \<Rightarrow> json \<Rightarrow> json" where
  "dict_get kvs k d = (case map_of kvs k of None \<Rightarrow> d | Some v \<Rightarrow> v)"

text \<open>\<open>obj.get(k, d)\<close> on a value that \<open>json.loads\<close> made: only a dict has \<open>get\<close>.\<close>

fun py_get :: "json \<Rightarrow> string \<Rightarrow> json \<Rightarrow> exn + json" where
  "py_get (JObject kvs) k d = Inr (dict_get kvs k d)"
| "py_get v k d = Inl (no_attribute v ''get'')"

fun is_object :: "json \<Rightarrow> bool" where
  "is_object (JObject kvs) = True"
| "is_object v = False"

subsection \<open>Effects\<close>

text \<open>An event is one call that acts on the outside world.\<close>

datatype event =
    Print "piece list"
  | Sleep nat
  | Status nat
  | Header string string
  | End_headers
  | Write string

text \<open>A computation yields the events it caused, then an exception or a result.\<close>

type_synonym 'a io = "event list \<times> (exn + 'a)"

definition ret :: "'a \<Rightarrow> 'a io" where
  "ret a = ([], Inr a)"

definition lift :: "exn + 'a \<Rightarrow> 'a io" where
  "lift r = ([], r)"

definition emit :: "event \<Rightarrow> unit io" where
  "emit ev = ([ev], Inr ())"

definition bind :: "'a io \<Rightarrow> ('a \<Rightarrow> 'b io) \<Rightarrow> 'b io" where
  "bind m f =
     (case m of
        (t, Inl e) \<Rightarrow> (t, Inl e)
      | (t, Inr a) \<Rightarrow> (case f a of (t', r) \<Rightarrow> (t @ t', r)))"

text \<open>A suite of statements, run in order up to the first exception.\<close>

fun seq :: "unit io list \<Rightarrow> unit io" where
  "seq [] = ret ()"
| "seq (m # ms) = bind m (\<lambda>_. seq ms)"

text \<open>\<open>try: m except Exception as e: h e\<close>. The events of \<open>m\<close> before the exception stay.\<close>

definition try_except :: "unit io \<Rightarrow> (exn \<Rightarrow> unit io) \<Rightarrow> unit io" where
  "try_except m h =
     (case m of
        (t, Inl e) \<Rightarrow> (case h e of (t', r) \<Rightarrow> (t @ t', r))
      | (t, Inr u) \<Rightarrow> (t, Inr u))"

text \<open>
  \<open>print(line)\<close>. The stream encodes the whole line before it writes any of it. Of the
  pieces of a line, only a value of the payload can hold a lone surrogate: the literals of
  the source hold none; the message of an exception is ASCII (it shows an offending
  character escaped); the text of \<open>strftime\<close> for \<open>%Y-%m-%d %H:%M:%S\<close> is digits and
  punctuation; and the request line was decoded as ISO-8859-1, so the text of
  \<open>'"%s" %s %s' % args\<close> has no character above U+00FF.
\<close>

fun unencodable_piece :: "piece \<Rightarrow> bool" where
  "unencodable_piece (Fmt v) = (\<not> printable v)"
| "unencodable_piece p = False"

definition unencodable :: "piece list \<Rightarrow> bool" where
  "unencodable line = list_ex unencodable_piece line"

definition py_print :: "piece list \<Rightarrow> unit io" where
  "py_print line =
     (if unencodable line then ([], Inl (UnicodeEncodeError line)) else emit (Print line))"

subsection \<open>The environment of one request\<close>

text \<open>
  \<open>env\<close> holds the library functions and the clock: \<open>int_of_str s\<close> is \<open>int(s)\<close> on a
  string, \<open>decode_utf8 b\<close> is \<open>b.decode('utf-8')\<close>, \<open>json_loads\<close> is \<open>json.loads\<close> and
  \<open>clock\<close> is \<open>datetime.now().strftime("%Y-%m-%d %H:%M:%S")\<close>, read once per request.
  \<open>handler\<close> is the state of \<open>self\<close> that \<open>do_POST\<close> reads: \<open>content_length\<close> is
  \<open>self.headers['Content-Length']\<close> (\<open>None\<close> when the request has no such header),
  \<open>rfile_read n\<close> is \<open>self.rfile.read(n)\<close> and \<open>requestline\<close> is \<open>self.requestline\<close>.
\<close>

record env =
  int_of_str :: "string \<Rightarrow> exn + int"
  decode_utf8 :: "string \<Rightarrow> exn + string"
  json_loads :: "string \<Rightarrow> exn + json"
  clock :: string

record handler =
  content_length :: "string option"
  rfile_read :: "int \<Rightarrow> exn + string"
  requestline :: string

text \<open>\<open>int(x)\<close> for \<open>x\<close> a header value: \<open>int(None)\<close> raises \<open>TypeError\<close>.\<close>

definition py_int :: "env \<Rightarrow> string option \<Rightarrow> exn + int" where
  "py_int E x =
     (case x of
        None \<Rightarrow> Inl (TypeError (''int() argument must be a string, a bytes-like object or a real number, not ''
                              @ apostrophe @ ''NoneType'' @ apostrophe))
      | Some s \<Rightarrow> int_of_str E s)"

text \<open>\<open>str(code)\<close> for a status code.\<close>

fun str_nat :: "nat \<Rightarrow> string" where
  "str_nat n =
     (if n < 10 then [char_of (48 + n)]
      else str_nat (n div 10) @ [char_of (48 + n mod 10)])"

declare str_nat.simps [simp del]

subsection \<open>\<open>log_message\<close> (lines 9 to 11)\<close>

definition log_message :: "env \<Rightarrow> string \<Rightarrow> string list \<Rightarrow> unit io" where
  "log_message E format args =
     py_print [Lit ''['', Fmt_time (clock E), Lit ''] '', Percent format args]"

text \<open>
  The library's \<open>send_response(code)\<close> reports the request first, through
  \<open>log_request(code)\<close>, which calls
  \<open>self.log_message('"%s" %s %s', self.requestline, str(code), '-')\<close>; then it sends the
  status line (with the library's own \<open>Server\<close> and \<open>Date\<close> headers).
\<close>

definition send_response :: "env \<Rightarrow> handler \<Rightarrow> nat \<Rightarrow> unit io" where
  "send_response E self code =
     seq [log_message E ([CHR 0x22] @ ''%s'' @ [CHR 0x22] @ '' %s %s'')
            [requestline self, str_nat code, ''-''],
          emit (Status code)]"

subsection \<open>The literals of \<open>do_POST\<close>\<close>

text \<open>The emoji of the source, as UTF-8: U+1F6A8, U+1F9E0, U+1F480, U+1F527, U+1F4CA,
  U+2705 and U+274C.\<close>

definition siren :: string where
  "siren = [CHR 0xF0, CHR 0x9F, CHR 0x9A, CHR 0xA8]"

definition brain :: string where
  "brain = [CHR 0xF0, CHR 0x9F, CHR 0xA7, CHR 0xA0]"

definition skull :: string where
  "skull = [CHR 0xF0, CHR 0x9F, CHR 0x92, CHR 0x80]"

definition wrench :: string where
  "wrench = [CHR 0xF0, CHR 0x9F, CHR 0x94, CHR 0xA7]"

definition chart :: string where
  "chart = [CHR 0xF0, CHR 0x9F, CHR 0x93, CHR 0x8A]"

definition check_mark :: string where
  "check_mark = [CHR 0xE2, CHR 0x9C, CHR 0x85]"

definition cross_mark :: string where
  "cross_mark = [CHR 0xE2, CHR 0x9D, CHR 0x8C]"

text \<open>\<open>json.dumps({"status": "success", "message": "Provisioning initiated"})\<close>, encoded.\<close>

definition success_body :: string where
  "success_body =
     ''{'' @ [CHR 0x22] @ ''status'' @ [CHR 0x22] @ '': '' @ [CHR 0x22] @ ''success'' @ [CHR 0x22]
     @ '', '' @ [CHR 0x22] @ ''message'' @ [CHR 0x22] @ '': ''
     @ [CHR 0x22] @ ''Provisioning initiated'' @ [CHR 0x22] @ ''}''"

subsection \<open>Decoding (lines 18 to 20)\<close>

text \<open>Line 18, \<open>json.loads(post_data.decode('utf-8'))\<close>.\<close>

definition parsed :: "env \<Rightarrow> string \<Rightarrow> exn + json" where
  "parsed E post_data =
     (case decode_utf8 E post_data of Inl e \<Rightarrow> Inl e | Inr text \<Rightarrow> json_loads E text)"

text \<open>The payload with its \<open>reason\<close> and \<open>timestamp\<close>, each \<open>'unknown'\<close> when the
  payload has no such key. Nothing is printed here.\<close>

definition decode :: "env \<Rightarrow> string \<Rightarrow> exn + (json \<times> json \<times> json)" where
  "decode E post_data =
     (case parsed E post_data of Inl e \<Rightarrow> Inl e | Inr payload \<Rightarrow>
      case py_get payload ''reason'' (JString ''unknown'') of Inl e \<Rightarrow> Inl e | Inr reason \<Rightarrow>
      case py_get payload ''timestamp'' (JString ''unknown'') of Inl e \<Rightarrow> Inl e | Inr timestamp \<Rightarrow>
      Inr (payload, reason, timestamp))"

subsection \<open>Classification and logging (lines 22 to 48)\<close>

text \<open>Lines 27 to 31. A replacement field is evaluated before its line is printed, so a
  failing \<open>get\<close> leaves the line out.\<close>

definition prediction_block :: "json \<Rightarrow> unit io" where
  "prediction_block payload =
     bind (lift (py_get payload ''prediction_info'' (JObject []))) (\<lambda>prediction_info.
     seq [py_print [Lit (''   '' @ brain @ '' ML PREDICTION:'')],
          bind (lift (py_get prediction_info ''predicted_cpu_usage'' (JString ''N/A''))) (\<lambda>v.
            py_print [Lit ''      Predicted CPU: '', Fmt v]),
          bind (lift (py_get prediction_info ''prediction_horizon_minutes'' (JString ''N/A''))) (\<lambda>v.
            py_print [Lit ''      Horizon: '', Fmt v, Lit '' minutes'']),
          bind (lift (py_get prediction_info ''confidence'' (JString ''N/A''))) (\<lambda>v.
            py_print [Lit ''      Confidence: '', Fmt v])])"

text \<open>Lines 34 to 39.\<close>

definition node_failure_block :: "json \<Rightarrow> unit io" where
  "node_failure_block payload =
     bind (lift (py_get payload ''failed_node_id'' (JString ''unknown''))) (\<lambda>failed_node_id.
     bind (lift (py_get payload ''failed_node_ip'' (JString ''unknown''))) (\<lambda>failed_node_ip.
     seq [py_print [Lit (''   '' @ skull @ '' SELF-HEALING TRIGGERED:'')],
          py_print [Lit ''      Failed Node ID: '', Fmt failed_node_id],
          py_print [Lit ''      Failed Node IP: '', Fmt failed_node_ip],
          py_print [Lit (''   '' @ wrench @ '' Provisioning replacement node...'')]]))"

text \<open>Lines 41 to 46.\<close>

definition fleet_block :: "json \<Rightarrow> unit io" where
  "fleet_block payload =
     bind (lift (py_get payload ''fleet_metrics'' (JObject []))) (\<lambda>fleet_metrics.
     if truthy fleet_metrics then
       seq [py_print [Lit (''   '' @ chart @ '' Fleet Status:'')],
            bind (lift (py_get fleet_metrics ''active_nodes'' (JString ''N/A''))) (\<lambda>v.
              py_print [Lit ''      Active Nodes: '', Fmt v]),
            bind (lift (py_get fleet_metrics ''avg_cpu_usage'' (JString ''N/A''))) (\<lambda>v.
              py_print [Lit ''      Avg CPU: '', Fmt v]),
            bind (lift (py_get fleet_metrics ''total_connections'' (JString ''N/A''))) (\<lambda>v.
              py_print [Lit ''      Total Connections: '', Fmt v])]
     else ret ())"

text \<open>Lines 22 to 48.\<close>

definition dispatch :: "json \<Rightarrow> json \<Rightarrow> json \<Rightarrow> unit io" where
  "dispatch payload reason timestamp =
     seq [py_print [Lit ([CHR 0x0A] @ siren @ '' PROVISIONING WEBHOOK RECEIVED:'')],
          py_print [Lit ''   Reason: '', Fmt reason],
          py_print [Lit ''   Timestamp: '', Fmt timestamp],
          if reason = JString ''PREDICTED_HIGH_FLEET_CPU_LOAD'' then prediction_block payload
          else if reason = JString ''UNEXPECTED_NODE_FAILURE'' then node_failure_block payload
          else ret (),
          fleet_block payload,
          py_print [Lit (''   '' @ check_mark @ '' Webhook processed successfully'' @ [CHR 0x0A])]]"

subsection \<open>\<open>do_POST\<close> (lines 13 to 62)\<close>

text \<open>The suite of the \<open>try\<close> statement, lines 18 to 57.\<close>

definition try_suite :: "env \<Rightarrow> handler \<Rightarrow> string \<Rightarrow> unit io" where
  "try_suite E self post_data =
     bind (lift (decode E post_data)) (\<lambda>(payload, reason, timestamp).
     seq [dispatch payload reason timestamp,
          emit (Sleep 1),
          send_response E self 200,
          emit (Header ''Content-type'' ''application/json''),
          emit End_headers,
          emit (Write success_body)])"

text \<open>The \<open>except\<close> clause, lines 59 to 62.\<close>

definition except_handler :: "env \<Rightarrow> handler \<Rightarrow> exn \<Rightarrow> unit io" where
  "except_handler E self e =
     seq [py_print [Lit (cross_mark @ '' Error processing webhook: ''), Fmt_exn e],
          send_response E self 400,
          emit End_headers]"

text \<open>Lines 14 and 15 stand before the \<open>try\<close> statement.\<close>

definition do_POST :: "env \<Rightarrow> handler \<Rightarrow> unit io" where
  "do_POST E self =
     bind (lift (py_int E (content_length self))) (\<lambda>content_length.
     bind (lift (rfile_read self content_length)) (\<lambda>post_data.
     try_except (try_suite E self post_data) (except_handler E self)))"

subsection \<open>Reading a trace\<close>

text \<open>The status codes sent, the body bytes written, the lines printed and the sleeps, each
  in the order of the trace.\<close>

fun status_of :: "event \<Rightarrow> nat option" where
  "status_of (Status c) = Some c"
| "status_of ev = None"

fun written_of :: "event \<Rightarrow> string option" where
  "written_of (Write b) = Some b"
| "written_of ev = None"

fun line_of :: "event \<Rightarrow> piece list option" where
  "line_of (Print l) = Some l"
| "line_of ev = None"

definition statuses :: "event list \<Rightarrow> nat list" where
  "statuses t = List.map_filter status_of t"

definition body :: "event list \<Rightarrow> string" where
  "body t = concat (List.map_filter written_of t)"

definition printed :: "event list \<Rightarrow> piece list list" where
  "printed t = List.map_filter line_of t"

text \<open>\<open>do_POST\<close> returned (no exception left it) after these events.\<close>

definition returns :: "unit io \<Rightarrow> event list \<Rightarrow> bool" where
  "returns m t = (m = (t, Inr ()))"

text \<open>What line 18 binds to \<open>payload\<close>, when lines 14 and 15 pass and the parser returns.\<close>

definition received :: "env \<Rightarrow> handler \<Rightarrow> exn + json" where
  "received E self =
     (case py_int E (content_length self) of Inl e \<Rightarrow> Inl e | Inr n \<Rightarrow>
      case rfile_read self n of Inl e \<Rightarrow> Inl e | Inr post_data \<Rightarrow> parsed E post_data)"

subsection \<open>The parts of the audit trace\<close>

text \<open>Each line that the handler can print starts with a literal of its own; the literal
  tells which part of the audit trace the line belongs to.\<close>

datatype part =
    Banner | Reason | Timestamp | Prediction | Node_failure | Fleet | Success | Failure
  | Access | Other

definition line_parts :: "(string \<times> part) list" where
  "line_parts =
     [([CHR 0x0A] @ siren @ '' PROVISIONING WEBHOOK RECEIVED:'', Banner),
      (''   Reason: '', Reason),
      (''   Timestamp: '', Timestamp),
      (''   '' @ brain @ '' ML PREDICTION:'', Prediction),
      (''      Predicted CPU: '', Prediction),
      (''      Horizon: '', Prediction),
      (''      Confidence: '', Prediction),
      (''   '' @ skull @ '' SELF-HEALING TRIGGERED:'', Node_failure),
      (''      Failed Node ID: '', Node_failure),
      (''      Failed Node IP: '', Node_failure),
      (''   '' @ wrench @ '' Provisioning replacement node...'', Node_failure),
      (''   '' @ chart @ '' Fleet Status:'', Fleet),
      (''      Active Nodes: '', Fleet),
      (''      Avg CPU: '', Fleet),
      (''      Total Connections: '', Fleet),
      (''   '' @ check_mark @ '' Webhook processed successfully'' @ [CHR 0x0A], Success),
      (cross_mark @ '' Error processing webhook: '', Failure),
      (''['', Access)]"

fun part_of :: "piece list \<Rightarrow> part" where
  "part_of (Lit s # rest) = (case map_of line_parts s of None \<Rightarrow> Other | Some x \<Rightarrow> x)"
| "part_of l = Other"

definition parts :: "event list \<Rightarrow> part list" where
  "parts t = map part_of (printed t)"

subsection \<open>Payloads that the handler logs to the end\<close>

text \<open>
  What each print of lines 22 to 48 needs. The reason and the timestamp must be printable.
  Under the reason \<open>PREDICTED_HIGH_FLEET_CPU_LOAD\<close>, \<open>prediction_info\<close> (or its default)
  must be a dict, for \<open>get\<close>, and its three values must be printable; under the reason
  \<open>UNEXPECTED_NODE_FAILURE\<close> the two node fields must be printable. A \<open>fleet_metrics\<close>
  that is true must be a dict whose three values are printable.
\<close>

definition header_ok :: "(string \<times> json) list \<Rightarrow> bool" where
  "header_ok kvs =
     (printable (dict_get kvs ''reason'' (JString ''unknown''))
      \<and> printable (dict_get kvs ''timestamp'' (JString ''unknown'')))"

definition prediction_ok :: "(string \<times> json) list \<Rightarrow> bool" where
  "prediction_ok kvs =
     (dict_get kvs ''reason'' (JString ''unknown'') = JString ''PREDICTED_HIGH_FLEET_CPU_LOAD''
      \<longrightarrow> (case dict_get kvs ''prediction_info'' (JObject []) of
             JObject p \<Rightarrow>
               printable (dict_get p ''predicted_cpu_usage'' (JString ''N/A''))
               \<and> printable (dict_get p ''prediction_horizon_minutes'' (JString ''N/A''))
               \<and> printable (dict_get p ''confidence'' (JString ''N/A''))
           | _ \<Rightarrow> False))"

definition node_failure_ok :: "(string \<times> json) list \<Rightarrow> bool" where
  "node_failure_ok kvs =
     (dict_get kvs ''reason'' (JString ''unknown'') = JString ''UNEXPECTED_NODE_FAILURE''
      \<longrightarrow> printable (dict_get kvs ''failed_node_id'' (JString ''unknown''))
          \<and> printable (dict_get kvs ''failed_node_ip'' (JString ''unknown'')))"

definition fleet_ok :: "(string \<times> json) list \<Rightarrow> bool" where
  "fleet_ok kvs =
     (truthy (dict_get kvs ''fleet_metrics'' (JObject []))
      \<longrightarrow> (case dict_get kvs ''fleet_metrics'' (JObject []) of
             JObject f \<Rightarrow>
               printable (dict_get f ''active_nodes'' (JString ''N/A''))
               \<and> printable (dict_get f ''avg_cpu_usage'' (JString ''N/A''))
               \<and> printable (dict_get f ''total_connections'' (JString ''N/A''))
           | _ \<Rightarrow> False))"

definition loggable :: "(string \<times> json) list \<Rightarrow> bool" where
  "loggable kvs = (header_ok kvs \<and> prediction_ok kvs \<and> node_failure_ok kvs \<and> fleet_ok kvs)"

subsection \<open>Sample requests\<close>

text \<open>A request whose body is \<open>txt\<close>, sent with its length as \<open>Content-Length\<close>, in an
  environment whose parser reads \<open>txt\<close> as \<open>payload\<close>.\<close>

definition sample_env :: "string \<Rightarrow> json \<Rightarrow> env" where
  "sample_env txt payload =
     \<lparr>int_of_str = (\<lambda>s. if s = str_nat (length txt) then Inr (int (length txt))
                         else Inl (Exn ''ValueError'' s)),
      decode_utf8 = (\<lambda>b. Inr b),
      json_loads = (\<lambda>t. if t = txt then Inr payload else Inl (Exn ''JSONDecodeError'' t)),
      clock = ''2024-01-01 00:00:00''\<rparr>"

definition sample_handler :: "string \<Rightarrow> handler" where
  "sample_handler txt =
     \<lparr>content_length = Some (str_nat (length txt)),
      rfile_read = (\<lambda>n. Inr (take (nat n) txt)),
      requestline = ''POST / HTTP/1.1''\<rparr>"



subsection \<open>Notions for the proofs\<close>

text \<open>The \<open>if\<close> statement of lines 26 to 39, as \<open>dispatch\<close> has it.\<close>

definition variant_block :: "json \<Rightarrow> json \<Rightarrow> unit io" where
  "variant_block payload reason =
     (if reason = JString ''PREDICTED_HIGH_FLEET_CPU_LOAD'' then prediction_block payload
      else if reason = JString ''UNEXPECTED_NODE_FAILURE'' then node_failure_block payload
      else ret ())"

text \<open>A run of prints, one after the other.\<close>

definition print_lines :: "piece list list \<Rightarrow> unit io" where
  "print_lines ls = seq (map py_print ls)"

text \<open>Every event of a trace is a print; every line that a computation prints satisfies
  a property.\<close>

definition prints_only :: "event list \<Rightarrow> bool" where
  "prints_only t = (t = map Print (printed t))"

definition all_lines :: "(piece list \<Rightarrow> bool) \<Rightarrow> 'a io \<Rightarrow> bool" where
  "all_lines P m = (\<forall>l \<in> set (printed (fst m)). P l)"

section \<open>Auxiliary facts\<close>

subsection \<open>Sequencing\<close>

lemma py_get_not_object: "\<not> is_object v \<Longrightarrow> py_get v k d = Inl (no_attribute v ''get'')"
  by (cases v) simp_all

lemma is_object_iff: "is_object v \<longleftrightarrow> (\<exists>kvs. v = JObject kvs)"
  by (cases v) simp_all

lemma bind_Inl: "bind (t, Inl e) f = (t, Inl e)"
  by (simp add: bind_def)

lemma bind_Inr: "bind (t, Inr a) f = (t @ fst (f a), snd (f a))"
  by (simp add: bind_def split: prod.splits)

lemma try_except_Inl: "try_except (t, Inl e) h = (t @ fst (h e), snd (h e))"
  by (simp add: try_except_def split: prod.splits)

lemma try_except_Inr: "try_except (t, Inr u) h = (t, Inr u)"
  by (simp add: try_except_def)

lemma bind_returns: "snd m = Inr a \<Longrightarrow> bind m f = (fst m @ fst (f a), snd (f a))"
  by (cases m) (simp add: bind_Inr)

lemma bind_raises: "snd m = Inl e \<Longrightarrow> bind m f = (fst m, Inl e)"
  by (cases m) (simp add: bind_Inl)

lemma bind_lift_Inr: "bind (lift (Inr a)) f = f a"
  by (simp add: lift_def bind_Inr)

lemma bind_lift_Inl: "bind (lift (Inl e)) f = ([], Inl e)"
  by (simp add: lift_def bind_Inl)

lemma bind_ret_left: "bind (ret a) f = f a"
  by (simp add: ret_def bind_Inr)

lemma bind_ret_unit: "bind m (\<lambda>_. ret ()) = (m :: unit io)"
  by (cases m; cases "snd m") (auto simp: bind_Inl bind_Inr ret_def)

lemma snd_bind_Inr_iff:
  "snd (bind m f) = Inr b \<longleftrightarrow> (\<exists>a. snd m = Inr a \<and> snd (f a) = Inr b)"
  by (cases m; cases "snd m") (auto simp: bind_Inl bind_Inr)

subsection \<open>Printing\<close>

lemma unencodable_simps [simp]:
  "unencodable [] = False"
  "unencodable (p # ps) = (unencodable_piece p \<or> unencodable ps)"
  by (simp_all add: unencodable_def)

lemma printable_defaults [simp]:
  "printable (JString ''unknown'')" "printable (JString ''N/A'')"
  "printable (JString ''PREDICTED_HIGH_FLEET_CPU_LOAD'')"
  "printable (JString ''UNEXPECTED_NODE_FAILURE'')"
  by simp_all

lemma py_print_ok: "\<not> unencodable l \<Longrightarrow> py_print l = ([Print l], Inr ())"
  by (simp add: py_print_def emit_def)

lemma py_print_fault: "unencodable l \<Longrightarrow> py_print l = ([], Inl (UnicodeEncodeError l))"
  by (simp add: py_print_def)

lemma print_lines_Nil [simp]: "print_lines [] = ([], Inr ())"
  by (simp add: print_lines_def ret_def)

lemma print_lines_Cons: "print_lines (l # ls) = bind (py_print l) (\<lambda>_. print_lines ls)"
  by (simp add: print_lines_def)

lemma print_lines_eq:
  "print_lines ls =
     (map Print (takeWhile (\<lambda>l. \<not> unencodable l) ls),
      case dropWhile (\<lambda>l. \<not> unencodable l) ls of
        [] \<Rightarrow> Inr () | l # rest \<Rightarrow> Inl (UnicodeEncodeError l))"
proof (induction ls)
  case Nil
  show ?case by simp
next
  case (Cons l ls)
  show ?case
  proof (cases "unencodable l")
    case True
    then show ?thesis by (simp add: print_lines_Cons py_print_fault bind_Inl)
  next
    case False
    then show ?thesis by (simp add: print_lines_Cons py_print_ok bind_Inr Cons.IH)
  qed
qed

lemma print_lines_returns_iff:
  "snd (print_lines ls) = Inr () \<longleftrightarrow> (\<forall>l \<in> set ls. \<not> unencodable l)"
proof (cases "dropWhile (\<lambda>l. \<not> unencodable l) ls")
  case Nil
  have "snd (print_lines ls) = Inr ()"
    by (simp add: print_lines_eq Nil del: dropWhile_eq_Nil_conv)
  moreover from Nil have "\<forall>l \<in> set ls. \<not> unencodable l"
    by (simp add: dropWhile_eq_Nil_conv)
  ultimately show ?thesis by simp
next
  case (Cons l rest)
  then have "\<not> (\<forall>l \<in> set ls. \<not> unencodable l)"
    using dropWhile_eq_Nil_conv [of "\<lambda>l. \<not> unencodable l" ls] by auto
  with Cons show ?thesis by (simp add: print_lines_eq)
qed

lemma print_lines_ok:
  assumes "\<forall>l \<in> set ls. \<not> unencodable l"
  shows "print_lines ls = (map Print ls, Inr ())"
proof -
  from assms have "takeWhile (\<lambda>l. \<not> unencodable l) ls = ls"
    and "dropWhile (\<lambda>l. \<not> unencodable l) ls = []"
    by (simp_all add: takeWhile_eq_all_conv dropWhile_eq_Nil_conv)
  then show ?thesis
    by (simp add: print_lines_eq del: dropWhile_eq_Nil_conv takeWhile_eq_all_conv)
qed

lemma bind_assoc: "bind (bind m f) g = bind m (\<lambda>a. bind (f a) g)"
proof (cases m)
  case (Pair t r)
  show ?thesis
  proof (cases r)
    case (Inl e)
    with Pair show ?thesis by (simp add: bind_Inl)
  next
    case (Inr a)
    show ?thesis
    proof (cases "f a")
      case fa: (Pair t' r')
      show ?thesis
        by (cases r') (simp_all add: Pair Inr fa bind_Inl bind_Inr)
    qed
  qed
qed

lemma print_lines_append:
  "print_lines (a @ b) = bind (print_lines a) (\<lambda>_. print_lines b)"
proof (induction a)
  case Nil
  show ?case by (simp add: bind_Inr)
next
  case (Cons l a)
  show ?case by (simp add: print_lines_Cons Cons.IH bind_assoc)
qed

lemma printed_print_lines_subset: "set (printed (fst (print_lines ls))) \<subseteq> set ls"
  by (auto simp: print_lines_eq printed_def map_filter_def dest: set_takeWhileD)

subsection \<open>Reading traces\<close>

lemma printed_simps [simp]:
  "printed [] = []"
  "printed (Print l # t) = l # printed t"
  "printed (Sleep n # t) = printed t"
  "printed (Status c # t) = printed t"
  "printed (Header k v # t) = printed t"
  "printed (End_headers # t) = printed t"
  "printed (Write b # t) = printed t"
  "printed (t @ u) = printed t @ printed u"
  by (simp_all add: printed_def map_filter_def)

lemma statuses_simps [simp]:
  "statuses [] = []"
  "statuses (Print l # t) = statuses t"
  "statuses (Sleep n # t) = statuses t"
  "statuses (Status c # t) = c # statuses t"
  "statuses (Header k v # t) = statuses t"
  "statuses (End_headers # t) = statuses t"
  "statuses (Write b # t) = statuses t"
  "statuses (t @ u) = statuses t @ statuses u"
  by (simp_all add: statuses_def map_filter_def)

lemma body_simps [simp]:
  "body [] = []"
  "body (Print l # t) = body t"
  "body (Sleep n # t) = body t"
  "body (Status c # t) = body t"
  "body (Header k v # t) = body t"
  "body (End_headers # t) = body t"
  "body (Write b # t) = b @ body t"
  "body (t @ u) = body t @ body u"
  by (simp_all add: body_def map_filter_def)

lemma map_Print_simps [simp]:
  "printed (map Print ls) = ls"
  "statuses (map Print ls) = []"
  "body (map Print ls) = []"
  by (induction ls) simp_all

lemma prints_only_simps [simp]:
  "prints_only []"
  "prints_only (Print l # t) = prints_only t"
  "prints_only (map Print ls)"
  by (simp_all add: prints_only_def)

lemma prints_only_append: "prints_only t \<Longrightarrow> prints_only u \<Longrightarrow> prints_only (t @ u)"
  by (simp add: prints_only_def)

lemma prints_only_bind:
  assumes "prints_only (fst m)" and "\<And>a. prints_only (fst (f a))"
  shows "prints_only (fst (bind m f))"
  using assms by (cases m; cases "snd m") (auto simp: bind_Inl bind_Inr prints_only_append)

lemma prints_only_py_print [simp]: "prints_only (fst (py_print l))"
  by (simp add: py_print_def emit_def)

lemma prints_only_lift [simp]: "prints_only (fst (lift r))"
  by (simp add: lift_def)

lemma prints_only_ret [simp]: "prints_only (fst (ret a))"
  by (simp add: ret_def)

lemma prints_only_print_lines [simp]: "prints_only (fst (print_lines ls))"
  by (simp add: print_lines_eq)

lemma all_lines_bind:
  assumes "all_lines P m" and "\<And>a. all_lines P (f a)"
  shows "all_lines P (bind m f)"
  using assms by (cases m; cases "snd m") (auto simp: all_lines_def bind_Inl bind_Inr)

lemma all_lines_py_print: "P l \<Longrightarrow> all_lines P (py_print l)"
  by (simp add: all_lines_def py_print_def emit_def)

lemma all_lines_lift [simp]: "all_lines P (lift r)"
  by (simp add: all_lines_def lift_def)

lemma all_lines_ret [simp]: "all_lines P (ret a)"
  by (simp add: all_lines_def ret_def)

lemma all_lines_emit [simp]:
  "all_lines P (emit (Sleep n))" "all_lines P (emit (Status c))"
  "all_lines P (emit (Header k v))" "all_lines P (emit End_headers)"
  "all_lines P (emit (Write b))"
  by (simp_all add: all_lines_def emit_def)

lemma all_lines_try_except:
  assumes "all_lines P m" and "\<And>e. all_lines P (h e)"
  shows "all_lines P (try_except m h)"
  using assms
  by (cases m; cases "snd m") (auto simp: all_lines_def try_except_Inl try_except_Inr)

lemma all_lines_mono: "all_lines P m \<Longrightarrow> (\<And>l. P l \<Longrightarrow> Q l) \<Longrightarrow> all_lines Q m"
  by (auto simp: all_lines_def)

lemmas all_lines_intros =
  all_lines_bind all_lines_py_print all_lines_try_except

lemmas mark_defs = siren_def brain_def skull_def wrench_def chart_def check_mark_def cross_mark_def

lemma part_of_lines:
  "part_of (Lit ([CHR 0x0A] @ siren @ '' PROVISIONING WEBHOOK RECEIVED:'') # r) = Banner"
  "part_of (Lit ''   Reason: '' # r) = Reason"
  "part_of (Lit ''   Timestamp: '' # r) = Timestamp"
  "part_of (Lit (''   '' @ brain @ '' ML PREDICTION:'') # r) = Prediction"
  "part_of (Lit ''      Predicted CPU: '' # r) = Prediction"
  "part_of (Lit ''      Horizon: '' # r) = Prediction"
  "part_of (Lit ''      Confidence: '' # r) = Prediction"
  "part_of (Lit (''   '' @ skull @ '' SELF-HEALING TRIGGERED:'') # r) = Node_failure"
  "part_of (Lit ''      Failed Node ID: '' # r) = Node_failure"
  "part_of (Lit ''      Failed Node IP: '' # r) = Node_failure"
  "part_of (Lit (''   '' @ wrench @ '' Provisioning replacement node...'') # r) = Node_failure"
  "part_of (Lit (''   '' @ chart @ '' Fleet Status:'') # r) = Fleet"
  "part_of (Lit ''      Active Nodes: '' # r) = Fleet"
  "part_of (Lit ''      Avg CPU: '' # r) = Fleet"
  "part_of (Lit ''      Total Connections: '' # r) = Fleet"
  "part_of (Lit (''   '' @ check_mark @ '' Webhook processed successfully'' @ [CHR 0x0A]) # r) = Success"
  "part_of (Lit (cross_mark @ '' Error processing webhook: '') # r) = Failure"
  "part_of (Lit ''['' # r) = Access"
  by (simp_all add: line_parts_def mark_defs)

lemmas part_of_norm = part_of_lines [unfolded append_Cons append_Nil]

subsection \<open>The blocks on a dict\<close>

lemma prediction_block_object:
  assumes "dict_get kvs ''prediction_info'' (JObject []) = JObject p"
  shows "prediction_block (JObject kvs) =
         print_lines
           [[Lit (''   '' @ brain @ '' ML PREDICTION:'')],
            [Lit ''      Predicted CPU: '', Fmt (dict_get p ''predicted_cpu_usage'' (JString ''N/A''))],
            [Lit ''      Horizon: '', Fmt (dict_get p ''prediction_horizon_minutes'' (JString ''N/A'')),
             Lit '' minutes''],
            [Lit ''      Confidence: '', Fmt (dict_get p ''confidence'' (JString ''N/A''))]]"
  using assms by (simp add: prediction_block_def print_lines_def bind_lift_Inr)

lemma prediction_block_not_object:
  assumes "\<not> is_object (dict_get kvs ''prediction_info'' (JObject []))"
  shows "prediction_block (JObject kvs) =
         (map Print [[Lit (''   '' @ brain @ '' ML PREDICTION:'')]],
          Inl (no_attribute (dict_get kvs ''prediction_info'' (JObject [])) ''get''))"
  using assms
  by (simp add: prediction_block_def bind_lift_Inr bind_lift_Inl py_get_not_object py_print_ok
        bind_Inr bind_Inl)

lemma node_failure_block_object:
  "node_failure_block (JObject kvs) =
     print_lines
       [[Lit (''   '' @ skull @ '' SELF-HEALING TRIGGERED:'')],
        [Lit ''      Failed Node ID: '', Fmt (dict_get kvs ''failed_node_id'' (JString ''unknown''))],
        [Lit ''      Failed Node IP: '', Fmt (dict_get kvs ''failed_node_ip'' (JString ''unknown''))],
        [Lit (''   '' @ wrench @ '' Provisioning replacement node...'')]]"
  by (simp add: node_failure_block_def print_lines_def bind_lift_Inr)

lemma fleet_block_falsy:
  assumes "\<not> truthy (dict_get kvs ''fleet_metrics'' (JObject []))"
  shows "fleet_block (JObject kvs) = ([], Inr ())"
  using assms by (simp add: fleet_block_def bind_lift_Inr ret_def)

lemma fleet_block_object:
  assumes "dict_get kvs ''fleet_metrics'' (JObject []) = JObject f" and "f \<noteq> []"
  shows "fleet_block (JObject kvs) =
         print_lines
           [[Lit (''   '' @ chart @ '' Fleet Status:'')],
            [Lit ''      Active Nodes: '', Fmt (dict_get f ''active_nodes'' (JString ''N/A''))],
            [Lit ''      Avg CPU: '', Fmt (dict_get f ''avg_cpu_usage'' (JString ''N/A''))],
            [Lit ''      Total Connections: '', Fmt (dict_get f ''total_connections'' (JString ''N/A''))]]"
  using assms by (simp add: fleet_block_def print_lines_def bind_lift_Inr)

lemma fleet_block_not_object:
  assumes "truthy (dict_get kvs ''fleet_metrics'' (JObject []))"
    and "\<not> is_object (dict_get kvs ''fleet_metrics'' (JObject []))"
  shows "fleet_block (JObject kvs) =
         (map Print [[Lit (''   '' @ chart @ '' Fleet Status:'')]],
          Inl (no_attribute (dict_get kvs ''fleet_metrics'' (JObject [])) ''get''))"
  using assms
  by (simp add: fleet_block_def bind_lift_Inr bind_lift_Inl py_get_not_object py_print_ok
        bind_Inr bind_Inl)

lemma dispatch_eq:
  "dispatch payload reason timestamp =
     bind (print_lines
             [[Lit ([CHR 0x0A] @ siren @ '' PROVISIONING WEBHOOK RECEIVED:'')],
              [Lit ''   Reason: '', Fmt reason],
              [Lit ''   Timestamp: '', Fmt timestamp]])
       (\<lambda>_. bind (variant_block payload reason)
       (\<lambda>_. bind (fleet_block payload)
       (\<lambda>_. print_lines
               [[Lit (''   '' @ check_mark @ '' Webhook processed successfully'' @ [CHR 0x0A])]])))"
  unfolding variant_block_def
  by (simp add: dispatch_def print_lines_def bind_assoc bind_ret_left)

lemma variant_cases:
  obtains (prediction) p where "reason = JString ''PREDICTED_HIGH_FLEET_CPU_LOAD''"
      and "dict_get kvs ''prediction_info'' (JObject []) = JObject p"
  | (prediction_fault) "reason = JString ''PREDICTED_HIGH_FLEET_CPU_LOAD''"
      and "\<not> is_object (dict_get kvs ''prediction_info'' (JObject []))"
  | (node_failure) "reason = JString ''UNEXPECTED_NODE_FAILURE''"
  | (unclassified) "reason \<noteq> JString ''PREDICTED_HIGH_FLEET_CPU_LOAD''"
      and "reason \<noteq> JString ''UNEXPECTED_NODE_FAILURE''"
  by (cases "dict_get kvs ''prediction_info'' (JObject [])") auto

lemma fleet_cases:
  obtains (absent) "\<not> truthy (dict_get kvs ''fleet_metrics'' (JObject []))"
  | (fleet) f where "dict_get kvs ''fleet_metrics'' (JObject []) = JObject f" and "f \<noteq> []"
  | (fleet_fault) "truthy (dict_get kvs ''fleet_metrics'' (JObject []))"
      and "\<not> is_object (dict_get kvs ''fleet_metrics'' (JObject []))"
  by (cases "dict_get kvs ''fleet_metrics'' (JObject [])") auto

lemma not_object_case:
  "\<not> is_object v \<Longrightarrow> (case v of JObject p \<Rightarrow> P p | _ \<Rightarrow> False) = False"
  by (cases v) simp_all

lemma print_lines_returns:
  "snd (print_lines ls) = Inr () \<Longrightarrow> print_lines ls = (map Print ls, Inr ())"
  by (simp add: print_lines_returns_iff print_lines_ok)

subsection \<open>When the blocks return\<close>

lemma variant_returns_iff:
  "snd (variant_block (JObject kvs) (dict_get kvs ''reason'' (JString ''unknown''))) = Inr ()
   \<longleftrightarrow> prediction_ok kvs \<and> node_failure_ok kvs"
proof (cases rule: variant_cases [of "dict_get kvs ''reason'' (JString ''unknown'')" kvs])
  case (prediction p)
  then show ?thesis
    by (simp add: variant_block_def prediction_block_object print_lines_returns_iff
          prediction_ok_def node_failure_ok_def)
next
  case prediction_fault
  then show ?thesis
    by (simp add: variant_block_def prediction_block_not_object prediction_ok_def
          not_object_case)
next
  case node_failure
  then show ?thesis
    by (simp add: variant_block_def node_failure_block_object print_lines_returns_iff
          prediction_ok_def node_failure_ok_def)
next
  case unclassified
  then show ?thesis
    by (simp add: variant_block_def ret_def prediction_ok_def node_failure_ok_def)
qed

lemma fleet_returns_iff:
  "snd (fleet_block (JObject kvs)) = Inr () \<longleftrightarrow> fleet_ok kvs"
proof (cases rule: fleet_cases [of kvs])
  case absent
  then show ?thesis by (simp add: fleet_block_falsy fleet_ok_def)
next
  case (fleet f)
  then show ?thesis
    by (simp add: fleet_block_object print_lines_returns_iff fleet_ok_def)
next
  case fleet_fault
  then show ?thesis
    by (simp add: fleet_block_not_object fleet_ok_def not_object_case)
qed

lemma dispatch_returns_iff:
  "snd (dispatch (JObject kvs) (dict_get kvs ''reason'' (JString ''unknown''))
          (dict_get kvs ''timestamp'' (JString ''unknown''))) = Inr ()
   \<longleftrightarrow> loggable kvs"
  by (simp add: dispatch_eq snd_bind_Inr_iff print_lines_returns_iff variant_returns_iff
        fleet_returns_iff loggable_def header_ok_def)

lemma variant_returns_parts:
  assumes "snd (variant_block (JObject kvs) reason) = Inr ()"
  shows "map part_of (printed (fst (variant_block (JObject kvs) reason))) =
           (if reason = JString ''PREDICTED_HIGH_FLEET_CPU_LOAD'' then replicate 4 Prediction
            else if reason = JString ''UNEXPECTED_NODE_FAILURE'' then replicate 4 Node_failure
            else [])"
proof (cases rule: variant_cases [of reason kvs])
  case (prediction p)
  with assms show ?thesis
    by (simp add: variant_block_def prediction_block_object print_lines_returns part_of_norm
          numeral_eq_Suc del: part_of.simps)
next
  case prediction_fault
  with assms show ?thesis
    by (simp add: variant_block_def prediction_block_not_object)
next
  case node_failure
  with assms show ?thesis
    by (simp add: variant_block_def node_failure_block_object print_lines_returns part_of_norm
          numeral_eq_Suc del: part_of.simps)
next
  case unclassified
  then show ?thesis by (simp add: variant_block_def ret_def)
qed

lemma fleet_returns_parts:
  assumes "snd (fleet_block (JObject kvs)) = Inr ()"
  shows "map part_of (printed (fst (fleet_block (JObject kvs)))) =
           (if truthy (dict_get kvs ''fleet_metrics'' (JObject [])) then replicate 4 Fleet else [])"
proof (cases rule: fleet_cases [of kvs])
  case absent
  then show ?thesis by (simp add: fleet_block_falsy)
next
  case (fleet f)
  with assms show ?thesis
    by (simp add: fleet_block_object print_lines_returns part_of_norm numeral_eq_Suc
          del: part_of.simps)
next
  case fleet_fault
  with assms show ?thesis by (simp add: fleet_block_not_object)
qed

subsection \<open>Only prints in the blocks\<close>

lemma prints_only_prediction_block [simp]: "prints_only (fst (prediction_block p))"
  by (auto simp: prediction_block_def intro!: prints_only_bind)

lemma prints_only_node_failure_block [simp]: "prints_only (fst (node_failure_block p))"
  by (auto simp: node_failure_block_def intro!: prints_only_bind)

lemma prints_only_fleet_block [simp]: "prints_only (fst (fleet_block p))"
  by (auto simp: fleet_block_def intro!: prints_only_bind)

lemma prints_only_variant_block [simp]: "prints_only (fst (variant_block p r))"
  by (simp add: variant_block_def)

lemma prints_only_dispatch [simp]: "prints_only (fst (dispatch p r ts))"
  by (auto simp: dispatch_eq intro!: prints_only_bind)

lemma prints_onlyD: "prints_only t \<Longrightarrow> t = map Print (printed t)"
  by (simp add: prints_only_def)

lemma bind4_returns:
  assumes "snd a = Inr ()" and "snd b = Inr ()" and "snd c = Inr ()" and "snd d = Inr ()"
  shows "fst (bind a (\<lambda>_. bind b (\<lambda>_. bind c (\<lambda>_. d)))) = fst a @ fst b @ fst c @ fst d"
  by (simp add: bind_returns [OF assms(1)] bind_returns [OF assms(2)] bind_returns [OF assms(3)])

lemma dispatch_returns_fst:
  assumes "snd (dispatch payload reason timestamp) = Inr ()"
  shows "fst (dispatch payload reason timestamp) =
           map Print
             [[Lit ([CHR 0x0A] @ siren @ '' PROVISIONING WEBHOOK RECEIVED:'')],
              [Lit ''   Reason: '', Fmt reason],
              [Lit ''   Timestamp: '', Fmt timestamp]]
           @ fst (variant_block payload reason)
           @ fst (fleet_block payload)
           @ map Print
               [[Lit (''   '' @ check_mark @ '' Webhook processed successfully'' @ [CHR 0x0A])]]"
    and "snd (variant_block payload reason) = Inr ()"
    and "snd (fleet_block payload) = Inr ()"
proof -
  from assms have h: "snd (print_lines
             [[Lit ([CHR 0x0A] @ siren @ '' PROVISIONING WEBHOOK RECEIVED:'')],
              [Lit ''   Reason: '', Fmt reason],
              [Lit ''   Timestamp: '', Fmt timestamp]]) = Inr ()"
    and v: "snd (variant_block payload reason) = Inr ()"
    and f: "snd (fleet_block payload) = Inr ()"
    and s: "snd (print_lines
               [[Lit (''   '' @ check_mark @ '' Webhook processed successfully'' @ [CHR 0x0A])]]) = Inr ()"
    unfolding dispatch_eq snd_bind_Inr_iff by auto
  show "snd (variant_block payload reason) = Inr ()" by (rule v)
  show "snd (fleet_block payload) = Inr ()" by (rule f)
  show "fst (dispatch payload reason timestamp) =
           map Print
             [[Lit ([CHR 0x0A] @ siren @ '' PROVISIONING WEBHOOK RECEIVED:'')],
              [Lit ''   Reason: '', Fmt reason],
              [Lit ''   Timestamp: '', Fmt timestamp]]
           @ fst (variant_block payload reason)
           @ fst (fleet_block payload)
           @ map Print
               [[Lit (''   '' @ check_mark @ '' Webhook processed successfully'' @ [CHR 0x0A])]]"
    unfolding dispatch_eq bind4_returns [OF h v f s]
      print_lines_returns [OF h, THEN arg_cong [where f = fst], unfolded fst_conv]
      print_lines_returns [OF s, THEN arg_cong [where f = fst], unfolded fst_conv]
    by (rule refl)
qed

lemmas io_defs = bind_Inl bind_Inr lift_def emit_def ret_def py_print_def

lemma unit_io_cases:
  fixes m :: "unit io"
  obtains (returns) t where "m = (t, Inr ())" | (raises) t e where "m = (t, Inl e)"
  by (cases m; cases "snd m") auto

lemma prints_only_statuses: "prints_only t \<Longrightarrow> statuses t = []"
proof -
  assume "prints_only t"
  then have "t = map Print (printed t)" by (rule prints_onlyD)
  then have "statuses t = statuses (map Print (printed t))" by (rule arg_cong)
  then show ?thesis by (simp only: map_Print_simps)
qed

lemma prints_only_body: "prints_only t \<Longrightarrow> body t = []"
proof -
  assume "prints_only t"
  then have "t = map Print (printed t)" by (rule prints_onlyD)
  then have "body t = body (map Print (printed t))" by (rule arg_cong)
  then show ?thesis by (simp only: map_Print_simps)
qed

lemma receivedE:
  assumes "received E self = Inr payload"
  obtains n post_data where "py_int E (content_length self) = Inr n"
    and "rfile_read self n = Inr post_data" and "parsed E post_data = Inr payload"
  using assms by (auto simp: received_def split: sum.splits)

lemma try_suite_object:
  assumes "parsed E post_data = Inr (JObject kvs)"
  shows "try_suite E self post_data =
         bind (dispatch (JObject kvs) (dict_get kvs ''reason'' (JString ''unknown''))
                 (dict_get kvs ''timestamp'' (JString ''unknown'')))
           (\<lambda>_. ([Sleep 1,
                   Print [Lit ''['', Fmt_time (clock E), Lit ''] '',
                          Percent ([CHR 0x22] @ ''%s'' @ [CHR 0x22] @ '' %s %s'')
                            [requestline self, str_nat 200, ''-'']],
                   Status 200, Header ''Content-type'' ''application/json'', End_headers,
                   Write success_body], Inr ()))"
  using assms
  by (simp add: try_suite_def decode_def io_defs send_response_def log_message_def)

lemma except_handler_eq:
  "except_handler E self e =
     ([Print [Lit (cross_mark @ '' Error processing webhook: ''), Fmt_exn e],
       Print [Lit ''['', Fmt_time (clock E), Lit ''] '',
              Percent ([CHR 0x22] @ ''%s'' @ [CHR 0x22] @ '' %s %s'')
                [requestline self, str_nat 400, ''-'']],
       Status 400, End_headers], Inr ())"
  by (simp add: except_handler_def io_defs send_response_def log_message_def)

lemma do_POST_received:
  assumes "received E self = Inr (JObject kvs)"
  shows "do_POST E self =
         try_except
           (bind (dispatch (JObject kvs) (dict_get kvs ''reason'' (JString ''unknown''))
                 (dict_get kvs ''timestamp'' (JString ''unknown'')))
           (\<lambda>_. ([Sleep 1,
                   Print [Lit ''['', Fmt_time (clock E), Lit ''] '',
                          Percent ([CHR 0x22] @ ''%s'' @ [CHR 0x22] @ '' %s %s'')
                            [requestline self, str_nat 200, ''-'']],
                   Status 200, Header ''Content-type'' ''application/json'', End_headers,
                   Write success_body], Inr ())))
           (except_handler E self)"
proof -
  from assms obtain n post_data where
    a: "py_int E (content_length self) = Inr n" "rfile_read self n = Inr post_data"
       "parsed E post_data = Inr (JObject kvs)"
    by (rule receivedE)
  show ?thesis
    by (simp add: do_POST_def a io_defs try_suite_object [OF a(3)])
qed

subsection \<open>Sample requests and decoding faults\<close>

lemma received_sample: "received (sample_env txt payload) (sample_handler txt) = Inr payload"
  by (simp add: received_def py_int_def parsed_def sample_env_def sample_handler_def)

lemma parsed_sample: "parsed (sample_env txt payload) txt = Inr payload"
  by (simp add: parsed_def sample_env_def)

lemma py_int_sample:
  "py_int (sample_env txt payload) (content_length (sample_handler txt)) = Inr (int (length txt))"
  by (simp add: py_int_def sample_env_def sample_handler_def)

lemma rfile_read_sample: "rfile_read (sample_handler txt) (int (length txt)) = Inr txt"
  by (simp add: sample_handler_def)

lemma decode_utf8_sample: "decode_utf8 (sample_env txt payload) b = Inr b"
  by (simp add: sample_env_def)

lemma json_loads_sample: "json_loads (sample_env txt payload) txt = Inr payload"
  by (simp add: sample_env_def)

lemma clock_sample: "clock (sample_env txt' payload') = clock (sample_env txt payload)"
  by (simp add: sample_env_def)

lemma requestline_sample: "requestline (sample_handler txt') = requestline (sample_handler txt)"
  by (simp add: sample_handler_def)

lemma decode_not_object:
  assumes "parsed E post_data = Inr v" and "\<not> is_object v"
  shows "decode E post_data = Inl (no_attribute v ''get'')"
  using assms by (simp add: decode_def py_get_not_object)

lemma decode_parse_fault:
  assumes "parsed E post_data = Inl e"
  shows "decode E post_data = Inl e"
  using assms by (simp add: decode_def)

lemma do_POST_decode_fault:
  assumes "py_int E (content_length self) = Inr n" and "rfile_read self n = Inr post_data"
    and "decode E post_data = Inl e"
  shows "do_POST E self = (fst (except_handler E self e), Inr ())"
  using assms
  by (simp add: do_POST_def try_suite_def io_defs try_except_Inl except_handler_eq)

subsection \<open>The ways through \<open>do_POST\<close>\<close>

lemma do_POST_object_ok:
  assumes "received E self = Inr (JObject kvs)" and "loggable kvs"
  shows "do_POST E self =
           (fst (dispatch (JObject kvs) (dict_get kvs ''reason'' (JString ''unknown''))
                   (dict_get kvs ''timestamp'' (JString ''unknown'')))
            @ [Sleep 1,
               Print [Lit ''['', Fmt_time (clock E), Lit ''] '',
                      Percent ([CHR 0x22] @ ''%s'' @ [CHR 0x22] @ '' %s %s'')
                        [requestline self, str_nat 200, ''-'']],
               Status 200, Header ''Content-type'' ''application/json'', End_headers,
               Write success_body], Inr ())"
proof -
  obtain t where t: "dispatch (JObject kvs) (dict_get kvs ''reason'' (JString ''unknown''))
                   (dict_get kvs ''timestamp'' (JString ''unknown'')) = (t, Inr ())"
    using dispatch_returns_iff [THEN iffD2, OF assms(2)]
    by (cases "dispatch (JObject kvs) (dict_get kvs ''reason'' (JString ''unknown''))
                   (dict_get kvs ''timestamp'' (JString ''unknown''))" rule: unit_io_cases) auto
  show ?thesis
    by (simp add: do_POST_received [OF assms(1)] t io_defs try_except_Inr)
qed

lemma do_POST_object_fault:
  assumes "received E self = Inr (JObject kvs)" and "\<not> loggable kvs"
  shows "\<exists>e. do_POST E self =
           (fst (dispatch (JObject kvs) (dict_get kvs ''reason'' (JString ''unknown''))
                   (dict_get kvs ''timestamp'' (JString ''unknown'')))
            @ fst (except_handler E self e), Inr ())"
proof -
  from assms(2) have "snd (dispatch (JObject kvs) (dict_get kvs ''reason'' (JString ''unknown''))
                   (dict_get kvs ''timestamp'' (JString ''unknown''))) \<noteq> Inr ()"
    by (simp add: dispatch_returns_iff)
  then obtain t e where t: "dispatch (JObject kvs) (dict_get kvs ''reason'' (JString ''unknown''))
                   (dict_get kvs ''timestamp'' (JString ''unknown'')) = (t, Inl e)"
    by (cases "dispatch (JObject kvs) (dict_get kvs ''reason'' (JString ''unknown''))
                   (dict_get kvs ''timestamp'' (JString ''unknown''))" rule: unit_io_cases) auto
  show ?thesis
    by (simp add: do_POST_received [OF assms(1)] t io_defs try_except_Inl except_handler_eq)
qed

text \<open>The four ways through \<open>do_POST\<close>.\<close>

lemma do_POST_cases:
  obtains (escaped) e where "do_POST E self = ([], Inl e)"
  | (decode_fault) e where "do_POST E self = (fst (except_handler E self e), Inr ())"
  | (dispatch_fault) kvs e where "received E self = Inr (JObject kvs)"
      and "\<not> loggable kvs"
      and "do_POST E self =
           (fst (dispatch (JObject kvs) (dict_get kvs ''reason'' (JString ''unknown''))
                   (dict_get kvs ''timestamp'' (JString ''unknown'')))
            @ fst (except_handler E self e), Inr ())"
  | (success) kvs where "received E self = Inr (JObject kvs)" and "loggable kvs"
proof (cases "py_int E (content_length self)")
  case (Inl e)
  then have "do_POST E self = ([], Inl e)" by (simp add: do_POST_def io_defs)
  then show ?thesis by (rule escaped)
next
  case n: (Inr n)
  show ?thesis
  proof (cases "rfile_read self n")
    case (Inl e)
    with n have "do_POST E self = ([], Inl e)" by (simp add: do_POST_def io_defs)
    then show ?thesis by (rule escaped)
  next
    case pd: (Inr post_data)
    show ?thesis
    proof (cases "parsed E post_data")
      case (Inl e)
      then have "decode E post_data = Inl e" by (rule decode_parse_fault)
      from do_POST_decode_fault [OF n pd this] show ?thesis by (rule decode_fault)
    next
      case v: (Inr v)
      show ?thesis
      proof (cases "is_object v")
        case False
        with v have "decode E post_data = Inl (no_attribute v ''get'')" by (rule decode_not_object)
        from do_POST_decode_fault [OF n pd this] show ?thesis by (rule decode_fault)
      next
        case True
        then obtain kvs where "v = JObject kvs" by (auto simp: is_object_iff)
        with n pd v have r: "received E self = Inr (JObject kvs)" by (simp add: received_def)
        show ?thesis
        proof (cases "loggable kvs")
          case True
          with r show ?thesis by (auto intro: success)
        next
          case False
          from do_POST_object_fault [OF r False] r False show ?thesis
            by (auto intro: dispatch_fault)
        qed
      qed
    qed
  qed
qed

lemma statuses_except_handler [simp]: "statuses (fst (except_handler E self e)) = [400]"
  by (simp add: except_handler_eq)

lemma statuses_dispatch [simp]: "statuses (fst (dispatch p r ts)) = []"
  by (rule prints_only_statuses) simp

lemma body_dispatch [simp]: "body (fst (dispatch p r ts)) = []"
  by (rule prints_only_body) simp

lemma status_200D:
  assumes "returns (do_POST E self) t" and "statuses t = [200]"
  obtains kvs where "received E self = Inr (JObject kvs)" and "loggable kvs"
proof (cases E self rule: do_POST_cases)
  case (escaped e)
  with assms show ?thesis by (simp add: returns_def)
next
  case (decode_fault e)
  with assms show ?thesis by (auto simp: returns_def)
next
  case (dispatch_fault kvs e)
  from dispatch_fault(3) assms show ?thesis
    by (auto simp: returns_def)
next
  case (success kvs)
  then show ?thesis by (rule that)
qed

lemma do_POST_trace_prefix:
  assumes "received E self = Inr (JObject kvs)"
  shows "\<exists>rest. fst (do_POST E self) =
           fst (dispatch (JObject kvs) (dict_get kvs ''reason'' (JString ''unknown''))
                  (dict_get kvs ''timestamp'' (JString ''unknown''))) @ rest"
proof (cases "loggable kvs")
  case True
  then show ?thesis by (simp add: do_POST_object_ok [OF assms])
next
  case False
  from do_POST_object_fault [OF assms False] show ?thesis by auto
qed

subsection \<open>The parts of the lines of a trace\<close>

lemma all_lines_print_lines: "\<forall>l \<in> set ls. P l \<Longrightarrow> all_lines P (print_lines ls)"
  using printed_print_lines_subset [of ls] by (auto simp: all_lines_def)

lemma all_lines_prediction_block: "all_lines (\<lambda>l. part_of l = Prediction) (prediction_block p)"
  by (auto simp: prediction_block_def part_of_norm simp del: part_of.simps
        intro!: all_lines_bind all_lines_py_print)

lemma all_lines_node_failure_block:
  "all_lines (\<lambda>l. part_of l = Node_failure) (node_failure_block p)"
  by (auto simp: node_failure_block_def part_of_norm simp del: part_of.simps
        intro!: all_lines_bind all_lines_py_print)

lemma all_lines_fleet_block: "all_lines (\<lambda>l. part_of l = Fleet) (fleet_block p)"
  by (auto simp: fleet_block_def part_of_norm simp del: part_of.simps
        intro!: all_lines_bind all_lines_py_print)

lemma all_lines_variant_block:
  "all_lines (\<lambda>l. (reason = JString ''PREDICTED_HIGH_FLEET_CPU_LOAD'' \<and> part_of l = Prediction)
                \<or> (reason = JString ''UNEXPECTED_NODE_FAILURE'' \<and> part_of l = Node_failure))
     (variant_block p reason)"
  using all_lines_prediction_block [of p] all_lines_node_failure_block [of p]
  by (auto simp: variant_block_def all_lines_def ret_def)

lemma all_lines_do_POST:
  assumes "received E self = Inr (JObject kvs)"
    and "x = Prediction \<or> x = Node_failure \<or> x = Fleet"
    and "all_lines (\<lambda>l. part_of l \<noteq> x)
           (variant_block (JObject kvs) (dict_get kvs ''reason'' (JString ''unknown'')))"
    and "all_lines (\<lambda>l. part_of l \<noteq> x) (fleet_block (JObject kvs))"
  shows "all_lines (\<lambda>l. part_of l \<noteq> x) (do_POST E self)"
  unfolding do_POST_received [OF assms(1)] dispatch_eq except_handler_eq
  by (intro all_lines_try_except all_lines_bind all_lines_print_lines assms(3,4))
     (use assms(2) in \<open>auto simp: all_lines_def part_of_norm simp del: part_of.simps\<close>)

lemma all_lines_partD: "all_lines (\<lambda>l. part_of l \<noteq> x) m \<Longrightarrow> x \<notin> set (parts (fst m))"
  by (auto simp: all_lines_def parts_def)

lemma no_fleet_lines:
  assumes "received E self = Inr (JObject kvs)"
    and "\<not> truthy (dict_get kvs ''fleet_metrics'' (JObject []))"
  shows "Fleet \<notin> set (parts (fst (do_POST E self)))"
proof (rule all_lines_partD, rule all_lines_do_POST [OF assms(1)])
  show "Fleet = Prediction \<or> Fleet = Node_failure \<or> Fleet = Fleet" by simp
  show "all_lines (\<lambda>l. part_of l \<noteq> Fleet)
          (variant_block (JObject kvs) (dict_get kvs ''reason'' (JString ''unknown'')))"
    by (rule all_lines_mono [OF all_lines_variant_block]) auto
  show "all_lines (\<lambda>l. part_of l \<noteq> Fleet) (fleet_block (JObject kvs))"
    by (simp add: fleet_block_falsy [OF assms(2)] all_lines_def)
qed

lemma no_node_failure_lines:
  assumes "received E self = Inr (JObject kvs)"
    and "dict_get kvs ''reason'' (JString ''unknown'') \<noteq> JString ''UNEXPECTED_NODE_FAILURE''"
  shows "Node_failure \<notin> set (parts (fst (do_POST E self)))"
proof (rule all_lines_partD, rule all_lines_do_POST [OF assms(1)])
  show "Node_failure = Prediction \<or> Node_failure = Node_failure \<or> Node_failure = Fleet" by simp
  show "all_lines (\<lambda>l. part_of l \<noteq> Node_failure)
          (variant_block (JObject kvs) (dict_get kvs ''reason'' (JString ''unknown'')))"
    by (rule all_lines_mono [OF all_lines_variant_block]) (use assms(2) in auto)
  show "all_lines (\<lambda>l. part_of l \<noteq> Node_failure) (fleet_block (JObject kvs))"
    by (rule all_lines_mono [OF all_lines_fleet_block]) auto
qed

lemma no_prediction_lines:
  assumes "received E self = Inr (JObject kvs)"
    and "dict_get kvs ''reason'' (JString ''unknown'') \<noteq> JString ''PREDICTED_HIGH_FLEET_CPU_LOAD''"
  shows "Prediction \<notin> set (parts (fst (do_POST E self)))"
proof (rule all_lines_partD, rule all_lines_do_POST [OF assms(1)])
  show "Prediction = Prediction \<or> Prediction = Node_failure \<or> Prediction = Fleet" by simp
  show "all_lines (\<lambda>l. part_of l \<noteq> Prediction)
          (variant_block (JObject kvs) (dict_get kvs ''reason'' (JString ''unknown'')))"
    by (rule all_lines_mono [OF all_lines_variant_block]) (use assms(2) in auto)
  show "all_lines (\<lambda>l. part_of l \<noteq> Prediction) (fleet_block (JObject kvs))"
    by (rule all_lines_mono [OF all_lines_fleet_block]) auto
qed

subsection \<open>What the trace depends on\<close>

lemma prediction_block_cong:
  "map_of kvs' ''prediction_info'' = map_of kvs ''prediction_info'' \<Longrightarrow>
   prediction_block (JObject kvs') = prediction_block (JObject kvs)"
  by (simp add: prediction_block_def dict_get_def)

lemma node_failure_block_cong:
  "map_of kvs' ''failed_node_id'' = map_of kvs ''failed_node_id'' \<Longrightarrow>
   map_of kvs' ''failed_node_ip'' = map_of kvs ''failed_node_ip'' \<Longrightarrow>
   node_failure_block (JObject kvs') = node_failure_block (JObject kvs)"
  by (simp add: node_failure_block_def dict_get_def)

lemma fleet_block_cong:
  "map_of kvs' ''fleet_metrics'' = map_of kvs ''fleet_metrics'' \<Longrightarrow>
   fleet_block (JObject kvs') = fleet_block (JObject kvs)"
  by (simp add: fleet_block_def dict_get_def)

lemma except_handler_cong:
  "clock E' = clock E \<Longrightarrow> requestline self' = requestline self \<Longrightarrow>
   except_handler E' self' = except_handler E self"
  by (rule ext) (simp add: except_handler_eq)

lemma do_POST_cong:
  assumes "received E self = Inr (JObject kvs)" and "received E' self' = Inr (JObject kvs')"
    and "clock E' = clock E" and "requestline self' = requestline self"
    and "dispatch (JObject kvs') (dict_get kvs' ''reason'' (JString ''unknown''))
           (dict_get kvs' ''timestamp'' (JString ''unknown''))
         = dispatch (JObject kvs) (dict_get kvs ''reason'' (JString ''unknown''))
           (dict_get kvs ''timestamp'' (JString ''unknown''))"
  shows "do_POST E' self' = do_POST E self"
  unfolding do_POST_received [OF assms(1)] do_POST_received [OF assms(2)]
  by (simp only: assms(3,4,5) except_handler_cong [OF assms(3,4)])

lemmas run_defs =
  dispatch_def prediction_block_def node_failure_block_def fleet_block_def dict_get_def
  except_handler_eq io_defs try_except_Inl try_except_Inr

subsection \<open>The lines of a dispatch\<close>

lemma dispatch_ok_parts:
  assumes "loggable kvs"
  shows "map part_of (printed (fst (dispatch (JObject kvs)
            (dict_get kvs ''reason'' (JString ''unknown''))
            (dict_get kvs ''timestamp'' (JString ''unknown''))))) =
           [Banner, Reason, Timestamp]
           @ (if dict_get kvs ''reason'' (JString ''unknown'') = JString ''PREDICTED_HIGH_FLEET_CPU_LOAD''
              then replicate 4 Prediction
              else if dict_get kvs ''reason'' (JString ''unknown'') = JString ''UNEXPECTED_NODE_FAILURE''
              then replicate 4 Node_failure else [])
           @ (if truthy (dict_get kvs ''fleet_metrics'' (JObject [])) then replicate 4 Fleet else [])
           @ [Success]"
proof -
  from assms have r: "snd (dispatch (JObject kvs)
            (dict_get kvs ''reason'' (JString ''unknown''))
            (dict_get kvs ''timestamp'' (JString ''unknown''))) = Inr ()"
    by (simp add: dispatch_returns_iff)
  show ?thesis
    by (simp add: dispatch_returns_fst(1) [OF r]
          variant_returns_parts [OF dispatch_returns_fst(2) [OF r]]
          fleet_returns_parts [OF dispatch_returns_fst(3) [OF r]]
          part_of_norm del: part_of.simps)
qed

lemma dispatch_prints: "fst (dispatch p r ts) = map Print (printed (fst (dispatch p r ts)))"
  by (rule prints_onlyD) simp

lemma printable_PREDICTED [simp]: "printable (JString ''PREDICTED_HIGH_FLEET_CPU_LOAD'')"
  by simp




lemma dispatch_fleet_infix:
  assumes "dict_get kvs ''fleet_metrics'' (JObject []) = JObject f" and "f \<noteq> []"
    and "loggable kvs"
  shows "\<exists>pre post. fst (dispatch (JObject kvs) (dict_get kvs ''reason'' (JString ''unknown''))
                            (dict_get kvs ''timestamp'' (JString ''unknown''))) =
           map Print pre
           @ map Print
               [[Lit (''   '' @ chart @ '' Fleet Status:'')],
                [Lit ''      Active Nodes: '', Fmt (dict_get f ''active_nodes'' (JString ''N/A''))],
                [Lit ''      Avg CPU: '', Fmt (dict_get f ''avg_cpu_usage'' (JString ''N/A''))],
                [Lit ''      Total Connections: '',
                 Fmt (dict_get f ''total_connections'' (JString ''N/A''))]]
           @ map Print post"
proof -
  let ?D = "dispatch (JObject kvs) (dict_get kvs ''reason'' (JString ''unknown''))
              (dict_get kvs ''timestamp'' (JString ''unknown''))"
  let ?V = "variant_block (JObject kvs) (dict_get kvs ''reason'' (JString ''unknown''))"
  let ?F = "[[Lit (''   '' @ chart @ '' Fleet Status:'')],
             [Lit ''      Active Nodes: '', Fmt (dict_get f ''active_nodes'' (JString ''N/A''))],
             [Lit ''      Avg CPU: '', Fmt (dict_get f ''avg_cpu_usage'' (JString ''N/A''))],
             [Lit ''      Total Connections: '',
              Fmt (dict_get f ''total_connections'' (JString ''N/A''))]]"
  from assms(3) have r: "snd ?D = Inr ()" by (simp add: dispatch_returns_iff)
  have "snd (print_lines ?F) = Inr ()"
    using dispatch_returns_fst(3) [OF r] unfolding fleet_block_object [OF assms(1,2)] .
  then have "print_lines ?F = (map Print ?F, Inr ())" by (rule print_lines_returns)
  then have F: "fst (fleet_block (JObject kvs)) = map Print ?F"
    unfolding fleet_block_object [OF assms(1,2)] by (simp del: list.map)
  have V: "fst ?V = map Print (printed (fst ?V))"
    by (rule prints_onlyD) simp
  have "fst ?D = map Print
             ([[Lit ([CHR 0x0A] @ siren @ '' PROVISIONING WEBHOOK RECEIVED:'')],
              [Lit ''   Reason: '', Fmt (dict_get kvs ''reason'' (JString ''unknown''))],
              [Lit ''   Timestamp: '', Fmt (dict_get kvs ''timestamp'' (JString ''unknown''))]]
               @ printed (fst ?V))
           @ map Print ?F
           @ map Print [[Lit (''   '' @ check_mark @ '' Webhook processed successfully'' @ [CHR 0x0A])]]"
    unfolding dispatch_returns_fst(1) [OF r] F map_append V [symmetric] by simp
  then show ?thesis by blast
qed

section \<open>Properties of the handler\<close>

subsection \<open>Decoding\<close>

text \<open>
  C5. A body that parses to a JSON object always decodes: the payload comes with a reason
  and a timestamp, and each of the two is the string \<open>unknown\<close> when the object has no
  such key.
\<close>

theorem decode_defaults:
  assumes "parsed E post_data = Inr (JObject kvs)"
  shows "\<exists>reason timestamp.
           decode E post_data = Inr (JObject kvs, reason, timestamp)
         \<and> (map_of kvs ''reason'' = None \<longrightarrow> reason = JString ''unknown'')
         \<and> (map_of kvs ''timestamp'' = None \<longrightarrow> timestamp = JString ''unknown'')"
  using assms by (simp add: decode_def dict_get_def)

theorem decode_defaults_witness:
  "parsed (sample_env ''{}'' (JObject [])) ''{}'' = Inr (JObject [])
   \<and> map_of ([] :: (string \<times> json) list) ''reason'' = None
   \<and> map_of ([] :: (string \<times> json) list) ''timestamp'' = None
   \<and> decode (sample_env ''{}'' (JObject [])) ''{}''
       = Inr (JObject [], JString ''unknown'', JString ''unknown'')"
  using decode_defaults [OF parsed_sample, of "''{}''" "[]"]
  by (simp add: parsed_sample)

text \<open>
  C2. When lines 14 and 15 have read the body, and the body is not valid UTF-8, or its
  text is not JSON, or the JSON value is not an object, then decoding fails, and the
  request is answered with status 400 and an empty body.
\<close>

theorem decode_failure_400:
  assumes "py_int E (content_length self) = Inr n" and "rfile_read self n = Inr post_data"
    and "(\<exists>e. decode_utf8 E post_data = Inl e)
       \<or> (\<exists>text e. decode_utf8 E post_data = Inr text \<and> json_loads E text = Inl e)
       \<or> (\<exists>text v. decode_utf8 E post_data = Inr text \<and> json_loads E text = Inr v \<and> \<not> is_object v)"
  shows "(\<exists>e. decode E post_data = Inl e)
       \<and> (\<exists>t. returns (do_POST E self) t \<and> statuses t = [400] \<and> body t = [])"
proof -
  from assms(3) have "(\<exists>e. parsed E post_data = Inl e) \<or> (\<exists>v. parsed E post_data = Inr v \<and> \<not> is_object v)"
    by (auto simp: parsed_def)
  then obtain e where e: "decode E post_data = Inl e"
    using decode_parse_fault decode_not_object by blast
  have "returns (do_POST E self) (fst (except_handler E self e))"
    by (simp add: returns_def do_POST_decode_fault [OF assms(1,2) e])
  moreover have "statuses (fst (except_handler E self e)) = [400]"
    and "body (fst (except_handler E self e)) = []"
    by (simp_all add: except_handler_eq)
  ultimately show ?thesis using e by blast
qed

theorem decode_failure_400_witness:
  "py_int (sample_env ''[1]'' (JArray [JInt 1])) (content_length (sample_handler ''[1]'')) = Inr 3
   \<and> rfile_read (sample_handler ''[1]'') 3 = Inr ''[1]''
   \<and> decode_utf8 (sample_env ''[1]'' (JArray [JInt 1])) ''[1]'' = Inr ''[1]''
   \<and> json_loads (sample_env ''[1]'' (JArray [JInt 1])) ''[1]'' = Inr (JArray [JInt 1])
   \<and> \<not> is_object (JArray [JInt 1])
   \<and> decode (sample_env ''[1]'' (JArray [JInt 1])) ''[1]'' = Inl (no_attribute (JArray [JInt 1]) ''get'')
   \<and> (\<exists>t. returns (do_POST (sample_env ''[1]'' (JArray [JInt 1])) (sample_handler ''[1]'')) t
          \<and> statuses t = [400] \<and> body t = [])"
proof -
  have a: "py_int (sample_env ''[1]'' (JArray [JInt 1])) (content_length (sample_handler ''[1]'')) = Inr 3"
    using py_int_sample [of "''[1]''"] by simp
  have b: "rfile_read (sample_handler ''[1]'') 3 = Inr ''[1]''"
    using rfile_read_sample [of "''[1]''"] by simp
  have c: "decode_utf8 (sample_env ''[1]'' (JArray [JInt 1])) ''[1]'' = Inr ''[1]''
           \<and> json_loads (sample_env ''[1]'' (JArray [JInt 1])) ''[1]'' = Inr (JArray [JInt 1])
           \<and> \<not> is_object (JArray [JInt 1])"
    by (simp add: decode_utf8_sample json_loads_sample)
  have d: "decode (sample_env ''[1]'' (JArray [JInt 1])) ''[1]'' = Inl (no_attribute (JArray [JInt 1]) ''get'')"
    by (simp add: decode_def parsed_def decode_utf8_sample json_loads_sample)
  from c have h: "(\<exists>e. decode_utf8 (sample_env ''[1]'' (JArray [JInt 1])) ''[1]'' = Inl e)
       \<or> (\<exists>text e. decode_utf8 (sample_env ''[1]'' (JArray [JInt 1])) ''[1]'' = Inr text \<and> json_loads (sample_env ''[1]'' (JArray [JInt 1])) text = Inl e)
       \<or> (\<exists>text v. decode_utf8 (sample_env ''[1]'' (JArray [JInt 1])) ''[1]'' = Inr text \<and> json_loads (sample_env ''[1]'' (JArray [JInt 1])) text = Inr v \<and> \<not> is_object v)"
    by blast
  from decode_failure_400 [OF a b h] a b c d show ?thesis by blast
qed

subsection \<open>The response to a JSON object\<close>




subsection \<open>The order of the audit trace\<close>

text \<open>
  C7. When a request is answered with status 200, the lines printed for it are, in this
  order: the banner, the reason, the timestamp, the block of the reason (four lines of the
  prediction block, or four lines of the node-failure block, or none), the fleet block
  (four lines, or none) and the success marker; the line that \<open>log_message\<close> prints for
  the response comes last. So the block of the reason always stands before the fleet
  block.
\<close>

theorem audit_order:
  assumes "returns (do_POST E self) t" and "statuses t = [200]"
  shows "\<exists>V F. parts t = [Banner, Reason, Timestamp] @ V @ F @ [Success, Access]
             \<and> (V = [] \<or> V = replicate 4 Prediction \<or> V = replicate 4 Node_failure)
             \<and> (F = [] \<or> F = replicate 4 Fleet)"
proof -
  from assms obtain kvs where r: "received E self = Inr (JObject kvs)"
    and ok: "loggable kvs"
    by (rule status_200D)
  let ?D = "dispatch (JObject kvs) (dict_get kvs ''reason'' (JString ''unknown''))
              (dict_get kvs ''timestamp'' (JString ''unknown''))"
  let ?V = "if dict_get kvs ''reason'' (JString ''unknown'') = JString ''PREDICTED_HIGH_FLEET_CPU_LOAD''
            then replicate 4 Prediction
            else if dict_get kvs ''reason'' (JString ''unknown'') = JString ''UNEXPECTED_NODE_FAILURE''
            then replicate 4 Node_failure else []"
  let ?F = "if truthy (dict_get kvs ''fleet_metrics'' (JObject [])) then replicate 4 Fleet else []"
  from assms(1) do_POST_object_ok [OF r ok]
  have "t = fst ?D @ [Sleep 1,
               Print [Lit ''['', Fmt_time (clock E), Lit ''] '',
                      Percent ([CHR 0x22] @ ''%s'' @ [CHR 0x22] @ '' %s %s'')
                        [requestline self, str_nat 200, ''-'']],
               Status 200, Header ''Content-type'' ''application/json'', End_headers,
               Write success_body]"
    by (simp add: returns_def)
  then have "parts t = map part_of (printed (fst ?D)) @ [Access]"
    by (simp add: parts_def part_of_norm del: part_of.simps)
  then have "parts t = [Banner, Reason, Timestamp] @ ?V @ ?F @ [Success, Access]"
    by (simp add: dispatch_ok_parts [OF ok])
  moreover have "?V = [] \<or> ?V = replicate 4 Prediction \<or> ?V = replicate 4 Node_failure"
    by simp
  moreover have "?F = [] \<or> ?F = replicate 4 Fleet"
    by simp
  ultimately show ?thesis by blast
qed

theorem audit_order_witness:
  \<open>returns (do_POST (sample_env ''{"reason": "UNEXPECTED_NODE_FAILURE", "fleet_metrics": {"active_nodes": 7}}''
        (JObject [(''reason'', JString ''UNEXPECTED_NODE_FAILURE''), (''fleet_metrics'', JObject [(''active_nodes'', JInt 7)])]))
      (sample_handler ''{"reason": "UNEXPECTED_NODE_FAILURE", "fleet_metrics": {"active_nodes": 7}}''))
     (fst (do_POST (sample_env ''{"reason": "UNEXPECTED_NODE_FAILURE", "fleet_metrics": {"active_nodes": 7}}''
        (JObject [(''reason'', JString ''UNEXPECTED_NODE_FAILURE''), (''fleet_metrics'', JObject [(''active_nodes'', JInt 7)])]))
      (sample_handler ''{"reason": "UNEXPECTED_NODE_FAILURE", "fleet_metrics": {"active_nodes": 7}}'')))
   \<and> statuses (fst (do_POST (sample_env ''{"reason": "UNEXPECTED_NODE_FAILURE", "fleet_metrics": {"active_nodes": 7}}''
        (JObject [(''reason'', JString ''UNEXPECTED_NODE_FAILURE''), (''fleet_metrics'', JObject [(''active_nodes'', JInt 7)])]))
      (sample_handler ''{"reason": "UNEXPECTED_NODE_FAILURE", "fleet_metrics": {"active_nodes": 7}}''))) = [200]
   \<and> parts (fst (do_POST (sample_env ''{"reason": "UNEXPECTED_NODE_FAILURE", "fleet_metrics": {"active_nodes": 7}}''
        (JObject [(''reason'', JString ''UNEXPECTED_NODE_FAILURE''), (''fleet_metrics'', JObject [(''active_nodes'', JInt 7)])]))
      (sample_handler ''{"reason": "UNEXPECTED_NODE_FAILURE", "fleet_metrics": {"active_nodes": 7}}'')))
     = [Banner, Reason, Timestamp, Node_failure, Node_failure, Node_failure, Node_failure,
        Fleet, Fleet, Fleet, Fleet, Success, Access]\<close>
proof -
  have r: \<open>returns (do_POST (sample_env ''{"reason": "UNEXPECTED_NODE_FAILURE", "fleet_metrics": {"active_nodes": 7}}''
        (JObject [(''reason'', JString ''UNEXPECTED_NODE_FAILURE''), (''fleet_metrics'', JObject [(''active_nodes'', JInt 7)])]))
      (sample_handler ''{"reason": "UNEXPECTED_NODE_FAILURE", "fleet_metrics": {"active_nodes": 7}}''))
     (fst (do_POST (sample_env ''{"reason": "UNEXPECTED_NODE_FAILURE", "fleet_metrics": {"active_nodes": 7}}''
        (JObject [(''reason'', JString ''UNEXPECTED_NODE_FAILURE''), (''fleet_metrics'', JObject [(''active_nodes'', JInt 7)])]))
      (sample_handler ''{"reason": "UNEXPECTED_NODE_FAILURE", "fleet_metrics": {"active_nodes": 7}}'')))
   \<and> statuses (fst (do_POST (sample_env ''{"reason": "UNEXPECTED_NODE_FAILURE", "fleet_metrics": {"active_nodes": 7}}''
        (JObject [(''reason'', JString ''UNEXPECTED_NODE_FAILURE''), (''fleet_metrics'', JObject [(''active_nodes'', JInt 7)])]))
      (sample_handler ''{"reason": "UNEXPECTED_NODE_FAILURE", "fleet_metrics": {"active_nodes": 7}}''))) = [200]\<close>
    by (simp add: do_POST_received [OF received_sample] run_defs returns_def)
  with audit_order [of \<open>sample_env ''{"reason": "UNEXPECTED_NODE_FAILURE", "fleet_metrics": {"active_nodes": 7}}'' (JObject [(''reason'', JString ''UNEXPECTED_NODE_FAILURE''), (''fleet_metrics'', JObject [(''active_nodes'', JInt 7)])])\<close> \<open>sample_handler ''{"reason": "UNEXPECTED_NODE_FAILURE", "fleet_metrics": {"active_nodes": 7}}''\<close>
      \<open>fst (do_POST (sample_env ''{"reason": "UNEXPECTED_NODE_FAILURE", "fleet_metrics": {"active_nodes": 7}}''
        (JObject [(''reason'', JString ''UNEXPECTED_NODE_FAILURE''), (''fleet_metrics'', JObject [(''active_nodes'', JInt 7)])]))
      (sample_handler ''{"reason": "UNEXPECTED_NODE_FAILURE", "fleet_metrics": {"active_nodes": 7}}''))\<close>]
  show ?thesis
    by (simp add: do_POST_received [OF received_sample] run_defs parts_def part_of_norm
          del: part_of.simps)
qed

subsection \<open>The simulated delay\<close>

text \<open>
  C8. Every request whose payload is an object that lines 22 to 48 classify and log
  without an exception, whatever its reason, is answered with status 200 and sleeps one
  second; in every request answered with status 200 the trace is the printed lines, ending
  with the success marker, then \<open>sleep(1)\<close>, then the response (its log line, the status
  line, the header, the end of the headers and the body); and a request that is not
  answered with status 200, as on the decode-failure path, never sleeps.
\<close>

theorem sleep_placement:
  assumes "do_POST E self = (t, r)"
  shows "(\<forall>kvs. received E self = Inr (JObject kvs)
            \<longrightarrow> snd (dispatch (JObject kvs) (dict_get kvs ''reason'' (JString ''unknown''))
                       (dict_get kvs ''timestamp'' (JString ''unknown''))) = Inr ()
            \<longrightarrow> statuses t = [200] \<and> Sleep 1 \<in> set t)
       \<and> (statuses t = [200] \<longrightarrow>
            (\<exists>ls a. t = map Print ls
                       @ [Sleep 1, Print a, Status 200,
                          Header ''Content-type'' ''application/json'', End_headers,
                          Write success_body]
                  \<and> ls \<noteq> [] \<and> part_of (last ls) = Success
                  \<and> Access \<notin> set (map part_of ls) \<and> part_of a = Access))
       \<and> (statuses t \<noteq> [200] \<longrightarrow> (\<forall>n. Sleep n \<notin> set t))"
proof (intro conjI allI impI)
  fix kvs
  assume r: "received E self = Inr (JObject kvs)"
    and "snd (dispatch (JObject kvs) (dict_get kvs ''reason'' (JString ''unknown''))
                (dict_get kvs ''timestamp'' (JString ''unknown''))) = Inr ()"
  then have ok: "loggable kvs" by (simp add: dispatch_returns_iff)
  from assms do_POST_object_ok [OF r ok]
  show "statuses t = [200]" and "Sleep 1 \<in> set t"
    by auto
next
  assume s: "statuses t = [200]"
  have "r = Inr ()"
  proof (cases E self rule: do_POST_cases)
    case (success kvs)
    from do_POST_object_ok [OF success] assms show ?thesis by simp
  qed (use assms s in auto)
  with assms have "returns (do_POST E self) t" by (simp add: returns_def)
  from this s obtain kvs where r: "received E self = Inr (JObject kvs)"
    and ok: "loggable kvs"
    by (rule status_200D)
  let ?D = "dispatch (JObject kvs) (dict_get kvs ''reason'' (JString ''unknown''))
              (dict_get kvs ''timestamp'' (JString ''unknown''))"
  let ?ls = "printed (fst ?D)"
  let ?a = "[Lit ''['', Fmt_time (clock E), Lit ''] '',
             Percent ([CHR 0x22] @ ''%s'' @ [CHR 0x22] @ '' %s %s'')
               [requestline self, str_nat 200, ''-'']]"
  have p: "map part_of ?ls = [Banner, Reason, Timestamp]
           @ (if dict_get kvs ''reason'' (JString ''unknown'') = JString ''PREDICTED_HIGH_FLEET_CPU_LOAD''
              then replicate 4 Prediction
              else if dict_get kvs ''reason'' (JString ''unknown'') = JString ''UNEXPECTED_NODE_FAILURE''
              then replicate 4 Node_failure else [])
           @ (if truthy (dict_get kvs ''fleet_metrics'' (JObject [])) then replicate 4 Fleet else [])
           @ [Success]"
    by (rule dispatch_ok_parts [OF ok])
  have 1: "t = map Print ?ls @ [Sleep 1, Print ?a, Status 200,
                          Header ''Content-type'' ''application/json'', End_headers,
                          Write success_body]"
    using assms do_POST_object_ok [OF r ok] dispatch_prints [of "JObject kvs"] by simp
  have 2: "?ls \<noteq> []" using p by auto
  have "last (map part_of ?ls) = Success" by (simp add: p)
  with 2 have 3: "part_of (last ?ls) = Success" by (simp add: last_map)
  have 4: "Access \<notin> set (map part_of ?ls)" by (simp add: p)
  have 5: "part_of ?a = Access" by (simp add: part_of_norm del: part_of.simps)
  from 1 2 3 4 5
  show "\<exists>ls a. t = map Print ls
                       @ [Sleep 1, Print a, Status 200,
                          Header ''Content-type'' ''application/json'', End_headers,
                          Write success_body]
                  \<and> ls \<noteq> [] \<and> part_of (last ls) = Success
                  \<and> Access \<notin> set (map part_of ls) \<and> part_of a = Access"
    by blast
next
  fix n
  assume s: "statuses t \<noteq> [200]"
  show "Sleep n \<notin> set t"
  proof (cases E self rule: do_POST_cases)
    case (escaped e)
    with assms show ?thesis by simp
  next
    case (decode_fault e)
    with assms show ?thesis by (auto simp: except_handler_eq)
  next
    case (dispatch_fault kvs e)
    from dispatch_fault(3) assms dispatch_prints [of "JObject kvs"]
    have "t = map Print (printed (fst (dispatch (JObject kvs) (dict_get kvs ''reason'' (JString ''unknown''))
                   (dict_get kvs ''timestamp'' (JString ''unknown''))))) @ fst (except_handler E self e)"
      by simp
    then show ?thesis by (auto simp: except_handler_eq)
  next
    case (success kvs)
    from assms do_POST_object_ok [OF success]
    have "statuses t = [200]" by auto
    with s show ?thesis by simp
  qed
qed

theorem sleep_placement_witness:
  \<open>received (sample_env ''{"reason": "UNEXPECTED_NODE_FAILURE", "fleet_metrics": {"active_nodes": 7}}''
        (JObject [(''reason'', JString ''UNEXPECTED_NODE_FAILURE''), (''fleet_metrics'', JObject [(''active_nodes'', JInt 7)])]))
      (sample_handler ''{"reason": "UNEXPECTED_NODE_FAILURE", "fleet_metrics": {"active_nodes": 7}}'')
     = Inr (JObject [(''reason'', JString ''UNEXPECTED_NODE_FAILURE''), (''fleet_metrics'', JObject [(''active_nodes'', JInt 7)])])
   \<and> snd (dispatch (JObject [(''reason'', JString ''UNEXPECTED_NODE_FAILURE''), (''fleet_metrics'', JObject [(''active_nodes'', JInt 7)])])
            (dict_get [(''reason'', JString ''UNEXPECTED_NODE_FAILURE''), (''fleet_metrics'', JObject [(''active_nodes'', JInt 7)])] ''reason'' (JString ''unknown''))
            (dict_get [(''reason'', JString ''UNEXPECTED_NODE_FAILURE''), (''fleet_metrics'', JObject [(''active_nodes'', JInt 7)])] ''timestamp'' (JString ''unknown''))) = Inr ()
   \<and> statuses (fst (do_POST (sample_env ''{"reason": "UNEXPECTED_NODE_FAILURE", "fleet_metrics": {"active_nodes": 7}}''
        (JObject [(''reason'', JString ''UNEXPECTED_NODE_FAILURE''), (''fleet_metrics'', JObject [(''active_nodes'', JInt 7)])]))
      (sample_handler ''{"reason": "UNEXPECTED_NODE_FAILURE", "fleet_metrics": {"active_nodes": 7}}''))) = [200]
   \<and> Sleep 1 \<in> set (fst (do_POST (sample_env ''{"reason": "UNEXPECTED_NODE_FAILURE", "fleet_metrics": {"active_nodes": 7}}''
        (JObject [(''reason'', JString ''UNEXPECTED_NODE_FAILURE''), (''fleet_metrics'', JObject [(''active_nodes'', JInt 7)])]))
      (sample_handler ''{"reason": "UNEXPECTED_NODE_FAILURE", "fleet_metrics": {"active_nodes": 7}}'')))
   \<and> statuses (fst (do_POST (sample_env ''[1]'' (JArray [JInt 1])) (sample_handler ''[1]''))) = [400]
   \<and> Sleep 1 \<notin> set (fst (do_POST (sample_env ''[1]'' (JArray [JInt 1])) (sample_handler ''[1]'')))\<close>
proof -
  have a: \<open>statuses (fst (do_POST (sample_env ''[1]'' (JArray [JInt 1])) (sample_handler ''[1]''))) = [400]\<close>
    by (simp add: do_POST_decode_fault [OF py_int_sample rfile_read_sample
          decode_not_object [OF parsed_sample]])
  have r: \<open>received (sample_env ''{"reason": "UNEXPECTED_NODE_FAILURE", "fleet_metrics": {"active_nodes": 7}}''
        (JObject [(''reason'', JString ''UNEXPECTED_NODE_FAILURE''), (''fleet_metrics'', JObject [(''active_nodes'', JInt 7)])]))
      (sample_handler ''{"reason": "UNEXPECTED_NODE_FAILURE", "fleet_metrics": {"active_nodes": 7}}'')
     = Inr (JObject [(''reason'', JString ''UNEXPECTED_NODE_FAILURE''), (''fleet_metrics'', JObject [(''active_nodes'', JInt 7)])])\<close>
    by (rule received_sample)
  have d: \<open>snd (dispatch (JObject [(''reason'', JString ''UNEXPECTED_NODE_FAILURE''), (''fleet_metrics'', JObject [(''active_nodes'', JInt 7)])])
            (dict_get [(''reason'', JString ''UNEXPECTED_NODE_FAILURE''), (''fleet_metrics'', JObject [(''active_nodes'', JInt 7)])] ''reason'' (JString ''unknown''))
            (dict_get [(''reason'', JString ''UNEXPECTED_NODE_FAILURE''), (''fleet_metrics'', JObject [(''active_nodes'', JInt 7)])] ''timestamp'' (JString ''unknown''))) = Inr ()\<close>
    by (simp add: run_defs)
  from sleep_placement [OF surjective_pairing, of \<open>sample_env ''[1]'' (JArray [JInt 1])\<close> \<open>sample_handler ''[1]''\<close>] a
  have n: \<open>Sleep 1 \<notin> set (fst (do_POST (sample_env ''[1]'' (JArray [JInt 1])) (sample_handler ''[1]'')))\<close>
    by simp
  from sleep_placement [OF surjective_pairing, of \<open>(sample_env ''{"reason": "UNEXPECTED_NODE_FAILURE", "fleet_metrics": {"active_nodes": 7}}''
        (JObject [(''reason'', JString ''UNEXPECTED_NODE_FAILURE''), (''fleet_metrics'', JObject [(''active_nodes'', JInt 7)])]))\<close> \<open>(sample_handler ''{"reason": "UNEXPECTED_NODE_FAILURE", "fleet_metrics": {"active_nodes": 7}}'')\<close>,
      THEN conjunct1, THEN spec, THEN mp, THEN mp, OF r d]
  show ?thesis using a r d n by simp
qed

subsection \<open>The prediction block\<close>




subsection \<open>The fleet block\<close>

text \<open>
  C3, as the code has it. When \<open>fleet_metrics\<close> is a non-empty dict and lines 22 to 48
  can log the payload to the end (no value that they print is a \<open>str\<close> with a lone
  surrogate, and \<open>prediction_info\<close> is absent or a dict where the reason is
  \<open>PREDICTED_HIGH_FLEET_CPU_LOAD\<close>), then whatever the reason the four lines of the fleet
  block are printed one after the other, each value being the one stored under its key or
  \<open>N/A\<close> when the key is absent. When \<open>fleet_metrics\<close> is absent or false (an empty
  dict, \<open>null\<close>, \<open>false\<close>, zero, an empty string or list), no line of the fleet block
  is printed.
\<close>

theorem fleet_block_logged:
  assumes "received E self = Inr (JObject kvs)"
  shows "(\<forall>f. dict_get kvs ''fleet_metrics'' (JObject []) = JObject f \<longrightarrow> f \<noteq> []
            \<longrightarrow> loggable kvs \<longrightarrow>
            (\<exists>pre post. printed (fst (do_POST E self)) =
               pre @
               [[Lit (''   '' @ chart @ '' Fleet Status:'')],
                [Lit ''      Active Nodes: '', Fmt (dict_get f ''active_nodes'' (JString ''N/A''))],
                [Lit ''      Avg CPU: '', Fmt (dict_get f ''avg_cpu_usage'' (JString ''N/A''))],
                [Lit ''      Total Connections: '',
                 Fmt (dict_get f ''total_connections'' (JString ''N/A''))]]
               @ post))
       \<and> (\<not> truthy (dict_get kvs ''fleet_metrics'' (JObject []))
            \<longrightarrow> Fleet \<notin> set (parts (fst (do_POST E self))))"
proof (intro conjI allI impI)
  fix f
  assume f: "dict_get kvs ''fleet_metrics'' (JObject []) = JObject f" "f \<noteq> []"
    and ok: "loggable kvs"
  let ?F = "[[Lit (''   '' @ chart @ '' Fleet Status:'')],
             [Lit ''      Active Nodes: '', Fmt (dict_get f ''active_nodes'' (JString ''N/A''))],
             [Lit ''      Avg CPU: '', Fmt (dict_get f ''avg_cpu_usage'' (JString ''N/A''))],
             [Lit ''      Total Connections: '',
              Fmt (dict_get f ''total_connections'' (JString ''N/A''))]]"
  from do_POST_trace_prefix [OF assms] obtain rest where
    1: "fst (do_POST E self) =
           fst (dispatch (JObject kvs) (dict_get kvs ''reason'' (JString ''unknown''))
                  (dict_get kvs ''timestamp'' (JString ''unknown''))) @ rest" ..
  from dispatch_fleet_infix [OF f ok] obtain pre post where
    2: "fst (dispatch (JObject kvs) (dict_get kvs ''reason'' (JString ''unknown''))
                  (dict_get kvs ''timestamp'' (JString ''unknown''))) =
          map Print pre @ map Print ?F @ map Print post"
    by blast
  have "printed (fst (do_POST E self)) = pre @ ?F @ (post @ printed rest)"
    unfolding 1 2 by (simp del: list.map)
  then show "\<exists>pre post. printed (fst (do_POST E self)) = pre @ ?F @ post"
    by blast
next
  assume "\<not> truthy (dict_get kvs ''fleet_metrics'' (JObject []))"
  with assms show "Fleet \<notin> set (parts (fst (do_POST E self)))"
    by (rule no_fleet_lines)
qed

theorem fleet_block_logged_witness:
  \<open>received (sample_env ''{"reason": "X", "fleet_metrics": {"active_nodes": 7}}''
      (JObject [(''reason'', JString ''X''), (''fleet_metrics'', JObject [(''active_nodes'', JInt 7)])])) (sample_handler ''{"reason": "X", "fleet_metrics": {"active_nodes": 7}}'')
     = Inr (JObject [(''reason'', JString ''X''), (''fleet_metrics'', JObject [(''active_nodes'', JInt 7)])])
   \<and> dict_get [(''reason'', JString ''X''), (''fleet_metrics'', JObject [(''active_nodes'', JInt 7)])] ''fleet_metrics'' (JObject [])
     = JObject [(''active_nodes'', JInt 7)]
   \<and> loggable [(''reason'', JString ''X''), (''fleet_metrics'', JObject [(''active_nodes'', JInt 7)])]
   \<and> (\<exists>pre post. printed (fst (do_POST (sample_env ''{"reason": "X", "fleet_metrics": {"active_nodes": 7}}''
      (JObject [(''reason'', JString ''X''), (''fleet_metrics'', JObject [(''active_nodes'', JInt 7)])])) (sample_handler ''{"reason": "X", "fleet_metrics": {"active_nodes": 7}}''))) =
          pre @
          [[Lit (''   '' @ chart @ '' Fleet Status:'')],
           [Lit ''      Active Nodes: '', Fmt (JInt 7)],
           [Lit ''      Avg CPU: '', Fmt (JString ''N/A'')],
           [Lit ''      Total Connections: '', Fmt (JString ''N/A'')]]
          @ post)
   \<and> received (sample_env ''{"fleet_metrics": {}}'' (JObject [(''fleet_metrics'', JObject [])])) (sample_handler ''{"fleet_metrics": {}}'') = Inr (JObject [(''fleet_metrics'', JObject [])])
   \<and> \<not> truthy (dict_get [(''fleet_metrics'', JObject [])] ''fleet_metrics'' (JObject []))
   \<and> Fleet \<notin> set (parts (fst (do_POST (sample_env ''{"fleet_metrics": {}}'' (JObject [(''fleet_metrics'', JObject [])])) (sample_handler ''{"fleet_metrics": {}}''))))\<close>
  using fleet_block_logged [OF received_sample,
      of \<open>[(''reason'', JString ''X''), (''fleet_metrics'', JObject [(''active_nodes'', JInt 7)])]\<close>
         \<open>''{"reason": "X", "fleet_metrics": {"active_nodes": 7}}''\<close>]
    fleet_block_logged [OF received_sample, of \<open>[(''fleet_metrics'', JObject [])]\<close> \<open>''{"fleet_metrics": {}}''\<close>]
  by (simp add: received_sample dict_get_def loggable_def header_ok_def prediction_ok_def
        node_failure_ok_def fleet_ok_def)

text \<open>
  C3 as stated fails: in the body \<open>{"fleet_metrics": {}}\<close> the field is present, the
  request is answered with status 200, and no line of the fleet block is printed, since
  an empty dict is false.
\<close>

theorem fleet_block_logged_counterexample:
  \<open>received (sample_env ''{"fleet_metrics": {}}'' (JObject [(''fleet_metrics'', JObject [])])) (sample_handler ''{"fleet_metrics": {}}'') = Inr (JObject [(''fleet_metrics'', JObject [])])
   \<and> map_of [(''fleet_metrics'', JObject [])] ''fleet_metrics'' = Some (JObject [])
   \<and> statuses (fst (do_POST (sample_env ''{"fleet_metrics": {}}'' (JObject [(''fleet_metrics'', JObject [])])) (sample_handler ''{"fleet_metrics": {}}''))) = [200]
   \<and> parts (fst (do_POST (sample_env ''{"fleet_metrics": {}}'' (JObject [(''fleet_metrics'', JObject [])])) (sample_handler ''{"fleet_metrics": {}}''))) = [Banner, Reason, Timestamp, Success, Access]\<close>
  by (simp add: received_sample do_POST_received [OF received_sample] run_defs parts_def
        part_of_norm del: part_of.simps)

subsection \<open>The two blocks of the reason\<close>

text \<open>
  C6. Take two requests with the same clock reading and request line, both with a JSON
  object as payload. When the reason is \<open>PREDICTED_HIGH_FLEET_CPU_LOAD\<close>, no line of
  the node-failure block is printed, and the whole trace and result stay the same when
  \<open>failed_node_id\<close> and \<open>failed_node_ip\<close> are changed, added or removed. When the
  reason is \<open>UNEXPECTED_NODE_FAILURE\<close>, no line of the prediction block is printed, and
  the trace and result stay the same when \<open>prediction_info\<close> is changed, added or
  removed. In no request are lines of both blocks printed.
\<close>

theorem variant_exclusive:
  assumes "received E self = Inr (JObject kvs)" and "received E' self' = Inr (JObject kvs')"
    and "clock E' = clock E" and "requestline self' = requestline self"
  shows "(map_of kvs ''reason'' = Some (JString ''PREDICTED_HIGH_FLEET_CPU_LOAD'') \<longrightarrow>
            Node_failure \<notin> set (parts (fst (do_POST E self)))
          \<and> ((\<forall>k. k \<noteq> ''failed_node_id'' \<and> k \<noteq> ''failed_node_ip''
                   \<longrightarrow> map_of kvs' k = map_of kvs k)
              \<longrightarrow> do_POST E' self' = do_POST E self))
       \<and> (map_of kvs ''reason'' = Some (JString ''UNEXPECTED_NODE_FAILURE'') \<longrightarrow>
            Prediction \<notin> set (parts (fst (do_POST E self)))
          \<and> ((\<forall>k. k \<noteq> ''prediction_info'' \<longrightarrow> map_of kvs' k = map_of kvs k)
              \<longrightarrow> do_POST E' self' = do_POST E self))
       \<and> \<not> (Prediction \<in> set (parts (fst (do_POST E self)))
            \<and> Node_failure \<in> set (parts (fst (do_POST E self))))"
proof (intro conjI impI)
  assume r: "map_of kvs ''reason'' = Some (JString ''PREDICTED_HIGH_FLEET_CPU_LOAD'')"
  then show "Node_failure \<notin> set (parts (fst (do_POST E self)))"
    by (intro no_node_failure_lines [OF assms(1)]) (simp add: dict_get_def)
  assume "\<forall>k. k \<noteq> ''failed_node_id'' \<and> k \<noteq> ''failed_node_ip''
              \<longrightarrow> map_of kvs' k = map_of kvs k"
  then have k: "map_of kvs' ''reason'' = map_of kvs ''reason''"
    "map_of kvs' ''timestamp'' = map_of kvs ''timestamp''"
    "map_of kvs' ''prediction_info'' = map_of kvs ''prediction_info''"
    "map_of kvs' ''fleet_metrics'' = map_of kvs ''fleet_metrics''"
    by simp_all
  have "dispatch (JObject kvs') (dict_get kvs' ''reason'' (JString ''unknown''))
           (dict_get kvs' ''timestamp'' (JString ''unknown''))
         = dispatch (JObject kvs) (dict_get kvs ''reason'' (JString ''unknown''))
           (dict_get kvs ''timestamp'' (JString ''unknown''))"
    by (simp add: dispatch_def dict_get_def k r prediction_block_cong [OF k(3)]
          fleet_block_cong [OF k(4)])
  then show "do_POST E' self' = do_POST E self"
    by (rule do_POST_cong [OF assms])
next
  assume r: "map_of kvs ''reason'' = Some (JString ''UNEXPECTED_NODE_FAILURE'')"
  then show "Prediction \<notin> set (parts (fst (do_POST E self)))"
    by (intro no_prediction_lines [OF assms(1)]) (simp add: dict_get_def)
  assume "\<forall>k. k \<noteq> ''prediction_info'' \<longrightarrow> map_of kvs' k = map_of kvs k"
  then have k: "map_of kvs' ''reason'' = map_of kvs ''reason''"
    "map_of kvs' ''timestamp'' = map_of kvs ''timestamp''"
    "map_of kvs' ''failed_node_id'' = map_of kvs ''failed_node_id''"
    "map_of kvs' ''failed_node_ip'' = map_of kvs ''failed_node_ip''"
    "map_of kvs' ''fleet_metrics'' = map_of kvs ''fleet_metrics''"
    by simp_all
  have "dispatch (JObject kvs') (dict_get kvs' ''reason'' (JString ''unknown''))
           (dict_get kvs' ''timestamp'' (JString ''unknown''))
         = dispatch (JObject kvs) (dict_get kvs ''reason'' (JString ''unknown''))
           (dict_get kvs ''timestamp'' (JString ''unknown''))"
    by (simp add: dispatch_def dict_get_def k r node_failure_block_cong [OF k(3,4)]
          fleet_block_cong [OF k(5)])
  then show "do_POST E' self' = do_POST E self"
    by (rule do_POST_cong [OF assms])
next
  show "\<not> (Prediction \<in> set (parts (fst (do_POST E self)))
          \<and> Node_failure \<in> set (parts (fst (do_POST E self))))"
  proof (cases "dict_get kvs ''reason'' (JString ''unknown'') = JString ''PREDICTED_HIGH_FLEET_CPU_LOAD''")
    case True
    then have "Node_failure \<notin> set (parts (fst (do_POST E self)))"
      by (intro no_node_failure_lines [OF assms(1)]) simp
    then show ?thesis by simp
  next
    case False
    then have "Prediction \<notin> set (parts (fst (do_POST E self)))"
      by (rule no_prediction_lines [OF assms(1)])
    then show ?thesis by simp
  qed
qed

theorem variant_exclusive_witness:
  \<open>map_of [(''reason'', JString ''PREDICTED_HIGH_FLEET_CPU_LOAD''), (''failed_node_id'', JString ''n-42'')] ''reason'' = Some (JString ''PREDICTED_HIGH_FLEET_CPU_LOAD'')
   \<and> (\<forall>k. k = ''failed_node_id'' \<or> k = ''failed_node_ip''
           \<or> map_of [(''reason'', JString ''PREDICTED_HIGH_FLEET_CPU_LOAD'')] k = map_of [(''reason'', JString ''PREDICTED_HIGH_FLEET_CPU_LOAD''), (''failed_node_id'', JString ''n-42'')] k)
   \<and> map_of [(''reason'', JString ''PREDICTED_HIGH_FLEET_CPU_LOAD'')] ''failed_node_id'' \<noteq> map_of [(''reason'', JString ''PREDICTED_HIGH_FLEET_CPU_LOAD''), (''failed_node_id'', JString ''n-42'')] ''failed_node_id''
   \<and> Node_failure \<notin> set (parts (fst (do_POST (sample_env ''{"reason": "PREDICTED_HIGH_FLEET_CPU_LOAD", "failed_node_id": "n-42"}''
       (JObject [(''reason'', JString ''PREDICTED_HIGH_FLEET_CPU_LOAD''), (''failed_node_id'', JString ''n-42'')]))
      (sample_handler ''{"reason": "PREDICTED_HIGH_FLEET_CPU_LOAD", "failed_node_id": "n-42"}''))))
   \<and> (do_POST (sample_env ''{"reason": "PREDICTED_HIGH_FLEET_CPU_LOAD"}''
       (JObject [(''reason'', JString ''PREDICTED_HIGH_FLEET_CPU_LOAD'')]))
      (sample_handler ''{"reason": "PREDICTED_HIGH_FLEET_CPU_LOAD"}'')) = (do_POST (sample_env ''{"reason": "PREDICTED_HIGH_FLEET_CPU_LOAD", "failed_node_id": "n-42"}''
       (JObject [(''reason'', JString ''PREDICTED_HIGH_FLEET_CPU_LOAD''), (''failed_node_id'', JString ''n-42'')]))
      (sample_handler ''{"reason": "PREDICTED_HIGH_FLEET_CPU_LOAD", "failed_node_id": "n-42"}''))
   \<and> map_of [(''reason'', JString ''UNEXPECTED_NODE_FAILURE''), (''prediction_info'', JObject [(''confidence'', JInt 1)])] ''reason'' = Some (JString ''UNEXPECTED_NODE_FAILURE'')
   \<and> (\<forall>k. k = ''prediction_info'' \<or> map_of [(''reason'', JString ''UNEXPECTED_NODE_FAILURE'')] k = map_of [(''reason'', JString ''UNEXPECTED_NODE_FAILURE''), (''prediction_info'', JObject [(''confidence'', JInt 1)])] k)
   \<and> map_of [(''reason'', JString ''UNEXPECTED_NODE_FAILURE'')] ''prediction_info'' \<noteq> map_of [(''reason'', JString ''UNEXPECTED_NODE_FAILURE''), (''prediction_info'', JObject [(''confidence'', JInt 1)])] ''prediction_info''
   \<and> Prediction \<notin> set (parts (fst (do_POST (sample_env ''{"reason": "UNEXPECTED_NODE_FAILURE", "prediction_info": {"confidence": 1}}''
       (JObject [(''reason'', JString ''UNEXPECTED_NODE_FAILURE''), (''prediction_info'', JObject [(''confidence'', JInt 1)])]))
      (sample_handler ''{"reason": "UNEXPECTED_NODE_FAILURE", "prediction_info": {"confidence": 1}}''))))
   \<and> (do_POST (sample_env ''{"reason": "UNEXPECTED_NODE_FAILURE"}''
       (JObject [(''reason'', JString ''UNEXPECTED_NODE_FAILURE'')]))
      (sample_handler ''{"reason": "UNEXPECTED_NODE_FAILURE"}'')) = (do_POST (sample_env ''{"reason": "UNEXPECTED_NODE_FAILURE", "prediction_info": {"confidence": 1}}''
       (JObject [(''reason'', JString ''UNEXPECTED_NODE_FAILURE''), (''prediction_info'', JObject [(''confidence'', JInt 1)])]))
      (sample_handler ''{"reason": "UNEXPECTED_NODE_FAILURE", "prediction_info": {"confidence": 1}}''))
   \<and> Node_failure \<in> set (parts (fst (do_POST (sample_env ''{"reason": "UNEXPECTED_NODE_FAILURE", "prediction_info": {"confidence": 1}}''
       (JObject [(''reason'', JString ''UNEXPECTED_NODE_FAILURE''), (''prediction_info'', JObject [(''confidence'', JInt 1)])]))
      (sample_handler ''{"reason": "UNEXPECTED_NODE_FAILURE", "prediction_info": {"confidence": 1}}''))))\<close>
proof -
  have n: \<open>Node_failure \<in> set (parts (fst (do_POST (sample_env ''{"reason": "UNEXPECTED_NODE_FAILURE", "prediction_info": {"confidence": 1}}''
       (JObject [(''reason'', JString ''UNEXPECTED_NODE_FAILURE''), (''prediction_info'', JObject [(''confidence'', JInt 1)])]))
      (sample_handler ''{"reason": "UNEXPECTED_NODE_FAILURE", "prediction_info": {"confidence": 1}}''))))\<close>
    by (simp add: do_POST_received [OF received_sample] run_defs parts_def part_of_norm
          del: part_of.simps)
  from variant_exclusive [OF received_sample received_sample clock_sample requestline_sample,
      of \<open>[(''reason'', JString ''PREDICTED_HIGH_FLEET_CPU_LOAD''), (''failed_node_id'', JString ''n-42'')]\<close> \<open>''{"reason": "PREDICTED_HIGH_FLEET_CPU_LOAD", "failed_node_id": "n-42"}''\<close> \<open>[(''reason'', JString ''PREDICTED_HIGH_FLEET_CPU_LOAD'')]\<close> \<open>''{"reason": "PREDICTED_HIGH_FLEET_CPU_LOAD"}''\<close>]
    variant_exclusive [OF received_sample received_sample clock_sample requestline_sample,
      of \<open>[(''reason'', JString ''UNEXPECTED_NODE_FAILURE''), (''prediction_info'', JObject [(''confidence'', JInt 1)])]\<close> \<open>''{"reason": "UNEXPECTED_NODE_FAILURE", "prediction_info": {"confidence": 1}}''\<close> \<open>[(''reason'', JString ''UNEXPECTED_NODE_FAILURE'')]\<close> \<open>''{"reason": "UNEXPECTED_NODE_FAILURE"}''\<close>]
    n
  show ?thesis by auto
qed

subsection \<open>Unrecognised fields\<close>

text \<open>
  C10. Two requests with the same clock reading and request line, whose payloads are JSON
  objects that agree on \<open>reason\<close>, \<open>timestamp\<close>, \<open>prediction_info\<close>,
  \<open>failed_node_id\<close>, \<open>failed_node_ip\<close> and \<open>fleet_metrics\<close>, have the same trace and
  the same result: the same printed lines, the same status, headers and body.
\<close>

theorem unrecognised_fields_ignored:
  assumes "received E self = Inr (JObject kvs)" and "received E' self' = Inr (JObject kvs')"
    and "clock E' = clock E" and "requestline self' = requestline self"
    and "\<forall>k \<in> set [''reason'', ''timestamp'', ''prediction_info'', ''failed_node_id'',
                     ''failed_node_ip'', ''fleet_metrics'']. map_of kvs' k = map_of kvs k"
  shows "do_POST E' self' = do_POST E self"
proof (rule do_POST_cong [OF assms(1-4)])
  from assms(5) have k: "map_of kvs' ''reason'' = map_of kvs ''reason''"
    "map_of kvs' ''timestamp'' = map_of kvs ''timestamp''"
    "map_of kvs' ''prediction_info'' = map_of kvs ''prediction_info''"
    "map_of kvs' ''failed_node_id'' = map_of kvs ''failed_node_id''"
    "map_of kvs' ''failed_node_ip'' = map_of kvs ''failed_node_ip''"
    "map_of kvs' ''fleet_metrics'' = map_of kvs ''fleet_metrics''"
    by simp_all
  show "dispatch (JObject kvs') (dict_get kvs' ''reason'' (JString ''unknown''))
           (dict_get kvs' ''timestamp'' (JString ''unknown''))
         = dispatch (JObject kvs) (dict_get kvs ''reason'' (JString ''unknown''))
           (dict_get kvs ''timestamp'' (JString ''unknown''))"
    by (simp only: dispatch_def dict_get_def k prediction_block_cong [OF k(3)]
          node_failure_block_cong [OF k(4,5)] fleet_block_cong [OF k(6)])
qed

theorem unrecognised_fields_ignored_witness:
  \<open>received (sample_env ''{"reason": "X", "trace_id": 1}'' (JObject [(''reason'', JString ''X''), (''trace_id'', JInt 1)])) (sample_handler ''{"reason": "X", "trace_id": 1}'') = Inr (JObject [(''reason'', JString ''X''), (''trace_id'', JInt 1)])
   \<and> received (sample_env ''{"reason": "X"}'' (JObject [(''reason'', JString ''X'')])) (sample_handler ''{"reason": "X"}'') = Inr (JObject [(''reason'', JString ''X'')])
   \<and> clock (sample_env ''{"reason": "X"}'' (JObject [(''reason'', JString ''X'')])) = clock (sample_env ''{"reason": "X", "trace_id": 1}'' (JObject [(''reason'', JString ''X''), (''trace_id'', JInt 1)]))
   \<and> requestline (sample_handler ''{"reason": "X"}'') = requestline (sample_handler ''{"reason": "X", "trace_id": 1}'')
   \<and> map_of [(''reason'', JString ''X'')] ''reason'' = map_of [(''reason'', JString ''X''), (''trace_id'', JInt 1)] ''reason''
   \<and> map_of [(''reason'', JString ''X'')] ''timestamp'' = map_of [(''reason'', JString ''X''), (''trace_id'', JInt 1)] ''timestamp''
   \<and> map_of [(''reason'', JString ''X'')] ''prediction_info'' = map_of [(''reason'', JString ''X''), (''trace_id'', JInt 1)] ''prediction_info''
   \<and> map_of [(''reason'', JString ''X'')] ''failed_node_id'' = map_of [(''reason'', JString ''X''), (''trace_id'', JInt 1)] ''failed_node_id''
   \<and> map_of [(''reason'', JString ''X'')] ''failed_node_ip'' = map_of [(''reason'', JString ''X''), (''trace_id'', JInt 1)] ''failed_node_ip''
   \<and> map_of [(''reason'', JString ''X'')] ''fleet_metrics'' = map_of [(''reason'', JString ''X''), (''trace_id'', JInt 1)] ''fleet_metrics''
   \<and> map_of [(''reason'', JString ''X'')] ''trace_id'' \<noteq> map_of [(''reason'', JString ''X''), (''trace_id'', JInt 1)] ''trace_id''
   \<and> (do_POST (sample_env ''{"reason": "X"}'' (JObject [(''reason'', JString ''X'')])) (sample_handler ''{"reason": "X"}'')) = (do_POST (sample_env ''{"reason": "X", "trace_id": 1}'' (JObject [(''reason'', JString ''X''), (''trace_id'', JInt 1)])) (sample_handler ''{"reason": "X", "trace_id": 1}''))\<close>
proof -
  have k: \<open>\<forall>k \<in> set [''reason'', ''timestamp'', ''prediction_info'', ''failed_node_id'',
                   ''failed_node_ip'', ''fleet_metrics''].
         map_of [(''reason'', JString ''X'')] k = map_of [(''reason'', JString ''X''), (''trace_id'', JInt 1)] k\<close>
    by simp
  from unrecognised_fields_ignored [OF received_sample received_sample clock_sample
      requestline_sample k]
  show ?thesis
    by (simp add: received_sample clock_sample requestline_sample)
qed

subsection \<open>Faults before the \<open>try\<close> statement\<close>

text \<open>
  C4 does not hold of the code. At a request without a \<open>Content-Length\<close> header,
  \<open>int(None)\<close> raises \<open>TypeError\<close> at line 14, before the \<open>try\<close> statement: the
  exception leaves \<open>do_POST\<close>, and nothing has been printed or sent.
\<close>

theorem missing_content_length_escapes:
  "do_POST (sample_env ''{}'' (JObject [])) ((sample_handler ''{}'')\<lparr>content_length := None\<rparr>)
   = ([], Inl (TypeError (''int() argument must be a string, a bytes-like object or a real number, not ''
                          @ apostrophe @ ''NoneType'' @ apostrophe)))"
  by (simp add: do_POST_def py_int_def io_defs)

end
